theory Spec2Isabelle
  imports Complex_Main
begin

section \<open>The combat simulation of \<^verbatim>\<open>fps-game/src/main.js\<close>\<close>

text \<open>
  The theory embeds the weapon runtime, the combat resolver, the damage and health
  model, the enemy shot and the locomotion step of \<^verbatim>\<open>main.js\<close>.

  Conventions of the embedding.
  \<^item> JavaScript numbers that hold times, coordinates and rates are HOL reals (exact
    arithmetic). The rounding of binary64 arithmetic is modelled in one place, \<open>randInt\<close>,
    where \<^verbatim>\<open>Math.floor\<close> turns the last bit of a sum into a different integer. Counters
    that only ever hold integers (ammunition, health, damage) are HOL integers.
  \<^item> The global variables of the module are the fields of one record \<open>game\<close>; every
    function takes the record and returns the updated one.
  \<^item> \<^verbatim>\<open>performance.now()\<close> and \<^verbatim>\<open>Math.random()\<close> are inputs: every read is an explicit
    argument of the function that performs it.
  \<^item> \<^verbatim>\<open>setTimeout(f, d)\<close> appends the pair \<open>(d, f)\<close> to the field \<open>timers\<close>; the
    callbacks are the constructors of \<open>callback\<close> and \<open>runCallback\<close> executes one.
  \<^item> Objects compared by identity (enemies, meshes) are references (natural numbers)
    into the store \<open>heap\<close>; \<open>nextRef\<close> is the allocation counter.
  \<^item> The DOM, the scene graph and the renderer are not modelled. What the code sends
    to them is appended to the trace \<open>events\<close>, which also records every call of
    \<^verbatim>\<open>raycaster.intersectObjects\<close>. The timers that only take a sprite out of the
    scene again, and the colour of a new enemy, are left out.
\<close>

subsection \<open>Vectors (the part of \<^verbatim>\<open>THREE.Vector3\<close> the code uses)\<close>

datatype vec3 = Vec3 (vx: real) (vy: real) (vz: real)

definition addScaledVector :: "vec3 \<Rightarrow> vec3 \<Rightarrow> real \<Rightarrow> vec3" where
  "addScaledVector a v s = Vec3 (vx a + vx v * s) (vy a + vy v * s) (vz a + vz v * s)"

definition subVectors :: "vec3 \<Rightarrow> vec3 \<Rightarrow> vec3" where
  "subVectors a b = Vec3 (vx a - vx b) (vy a - vy b) (vz a - vz b)"

definition multiplyScalar :: "vec3 \<Rightarrow> real \<Rightarrow> vec3" where
  "multiplyScalar a s = Vec3 (vx a * s) (vy a * s) (vz a * s)"

definition lengthSq :: "vec3 \<Rightarrow> real" where
  "lengthSq a = vx a * vx a + vy a * vy a + vz a * vz a"

definition vlength :: "vec3 \<Rightarrow> real" where
  "vlength a = sqrt (lengthSq a)"

text \<open>\<^verbatim>\<open>normalize()\<close> is \<^verbatim>\<open>divideScalar(length() || 1)\<close>: the zero vector is left as it is.\<close>

definition normalize :: "vec3 \<Rightarrow> vec3" where
  "normalize a =
     (let l = (if vlength a = 0 then 1 else vlength a)
      in Vec3 (vx a / l) (vy a / l) (vz a / l))"


subsection \<open>Configuration and utilities\<close>

definition WORLD_SIZE :: real where "WORLD_SIZE = 3200"
definition GRAVITY :: real where "GRAVITY = 64"
definition PLAYER_SPEED :: real where "PLAYER_SPEED = 180"
definition PLAYER_SPRINT_MULTIPLIER :: real where "PLAYER_SPRINT_MULTIPLIER = 1.7"
definition PLAYER_JUMP_VELOCITY :: real where "PLAYER_JUMP_VELOCITY = 260"
definition PLAYER_MAX_HEALTH :: int where "PLAYER_MAX_HEALTH = 100"

definition clamp :: "real \<Rightarrow> real \<Rightarrow> real \<Rightarrow> real" where
  "clamp v lo hi = max lo (min hi v)"

text \<open>\<open>r\<close> is the result of the call of \<^verbatim>\<open>Math.random()\<close>, a number in \<open>[0, 1)\<close>.\<close>

definition randFloat :: "real \<Rightarrow> real \<Rightarrow> real \<Rightarrow> real" where
  "randFloat lo hi r = r * (hi - lo) + lo"

text \<open>
  \<^verbatim>\<open>randInt\<close> is \<^verbatim>\<open>Math.floor(randFloat(min, max))\<close>. Below the floor the code's arithmetic is
  followed operation by operation: \<open>fl\<close> is the rounding of a real result to the nearest
  double, applied after the subtraction, the multiplication and the addition of
  \<^verbatim>\<open>randFloat\<close>. With the identity for \<open>fl\<close>, \<open>randFloat64\<close> is \<open>randFloat\<close>.
\<close>

definition randFloat64 :: "(real \<Rightarrow> real) \<Rightarrow> real \<Rightarrow> real \<Rightarrow> real \<Rightarrow> real" where
  "randFloat64 fl lo hi r = fl (fl (r * fl (hi - lo)) + lo)"

definition randInt :: "(real \<Rightarrow> real) \<Rightarrow> real \<Rightarrow> real \<Rightarrow> real \<Rightarrow> int" where
  "randInt fl lo hi r = \<lfloor>randFloat64 fl lo hi r\<rfloor>"

text \<open>
  What the results below use of the rounding: on the non-negative reals it is monotone,
  and it leaves the integers up to \<open>2 ^ 53\<close> as they are. Round-to-nearest of binary64
  has both properties.
\<close>

definition rounding :: "(real \<Rightarrow> real) \<Rightarrow> bool" where
  "rounding fl =
     ((\<forall>x y. 0 \<le> x \<and> x \<le> y \<longrightarrow> fl x \<le> fl y) \<and>
      (\<forall>k::nat. k \<le> 2 ^ 53 \<longrightarrow> fl (real k) = real k))"



subsection \<open>State\<close>

record player_state =
  velocity :: vec3
  onGround :: bool
  health :: int
  lastDamageTime :: real

record input_state =
  forward :: bool
  backward :: bool
  left :: bool
  right :: bool
  jump :: bool
  sprint :: bool
  shooting :: bool

text \<open>
  Of the camera the simulation reads the position, the yaw and the direction
  \<^verbatim>\<open>(0, 0, -1).applyQuaternion(camera.quaternion)\<close>, kept here as the field \<open>aim\<close>.
\<close>

record camera_state =
  cposition :: vec3
  yaw :: real
  aim :: vec3

record weapon_def =
  key :: string
  name :: string
  damage :: int
  rpm :: real
  mag :: int
  reserve_cap :: int
  reload :: real
  spread :: real
  wrange :: real
  pellets :: "nat option"
  automatic :: bool

record weapon_state =
  ammo :: int
  reserve :: int
  lastShotTime :: real
  reloading :: bool
  skinIndex :: int

datatype behaviour = Patrol | Chase | Attack

record enemy =
  mesh :: nat
  eposition :: vec3
  barScale :: real
  barColor :: nat
  ehealth :: int
  estate :: behaviour
  nextWanderTime :: real
  wanderDir :: vec3
  elastShotTime :: real

record enemy_manager =
  enemies :: "nat list"
  hitMeshes :: "nat list"
  meshToEnemy :: "nat \<rightharpoonup> nat"

datatype callback = ReloadDone nat | RespawnPlayer | CreateEnemy

datatype pool = EnemyPool | WorldPool

datatype event =
    HudRefresh
  | WeaponModelBuilt
  | MuzzleFlash
  | HitMarker vec3
  | Impact vec3
  | RayQuery pool vec3 vec3 real

record game =
  player :: player_state
  input :: input_state
  camera :: camera_state
  currentWeaponIndex :: nat
  weaponState :: "weapon_state list"
  enemyManager :: enemy_manager
  heap :: "nat \<Rightarrow> enemy"
  nextRef :: nat
  worldColliders :: "nat list"
  timers :: "(real \<times> callback) list"
  statusText :: string
  events :: "event list"

subsection \<open>Presentation sinks\<close>

definition updateHUD :: "game \<Rightarrow> game" where
  "updateHUD s = s\<lparr>events := events s @ [HudRefresh]\<rparr>"

definition setTimeout :: "callback \<Rightarrow> real \<Rightarrow> game \<Rightarrow> game" where
  "setTimeout cb delay s = s\<lparr>timers := timers s @ [(delay, cb)]\<rparr>"

subsection \<open>Damage and health of the player\<close>

definition applyDamageToPlayer :: "int \<Rightarrow> real \<Rightarrow> game \<Rightarrow> game" where
  "applyDamageToPlayer dmg now s =
     (if now - lastDamageTime (player s) < 200 then s
      else
        let s1 = s\<lparr>player := (player s)\<lparr>lastDamageTime := now\<rparr>\<rparr>;
            s2 = s1\<lparr>player := (player s1)\<lparr>health := health (player s1) - dmg\<rparr>\<rparr>;
            s3 = (if health (player s2) \<le> 0
                  then setTimeout RespawnPlayer 2000
                         (s2\<lparr>player := (player s2)\<lparr>health := 0\<rparr>,
                             statusText := ''You are down. Respawning...''\<rparr>)
                  else s2)
        in updateHUD s3)"

definition respawnPlayer :: "game \<Rightarrow> game" where
  "respawnPlayer s =
     updateHUD
       (s\<lparr>camera := (camera s)\<lparr>cposition := Vec3 0 24 0\<rparr>,
          player := (player s)\<lparr>velocity := Vec3 0 0 0, health := PLAYER_MAX_HEALTH\<rparr>,
          statusText := []\<rparr>)"

subsection \<open>Weapons\<close>

definition WEAPON_DEFS :: "weapon_def list" where
  "WEAPON_DEFS =
    [\<lparr>key = ''pistol'', name = ''Pistol'', damage = 22, rpm = 420, mag = 15, reserve_cap = 90,
       reload = 1.2, spread = 0.006, wrange = 1000, pellets = None, automatic = False\<rparr>,
     \<lparr>key = ''smg'', name = ''SMG'', damage = 16, rpm = 900, mag = 32, reserve_cap = 192,
       reload = 1.6, spread = 0.010, wrange = 850, pellets = None, automatic = True\<rparr>,
     \<lparr>key = ''ar'', name = ''Assault Rifle'', damage = 28, rpm = 700, mag = 30, reserve_cap = 180,
       reload = 1.8, spread = 0.008, wrange = 1100, pellets = None, automatic = True\<rparr>,
     \<lparr>key = ''shotgun'', name = ''Shotgun'', damage = 12, rpm = 85, mag = 8, reserve_cap = 48,
       reload = 2.2, spread = 0.035, wrange = 250, pellets = Some 8, automatic = False\<rparr>,
     \<lparr>key = ''sniper'', name = ''Sniper'', damage = 95, rpm = 55, mag = 5, reserve_cap = 25,
       reload = 2.8, spread = 0.001, wrange = 2200, pellets = None, automatic = False\<rparr>,
     \<lparr>key = ''lmg'', name = ''LMG'', damage = 24, rpm = 720, mag = 60, reserve_cap = 360,
       reload = 3.0, spread = 0.012, wrange = 1200, pellets = None, automatic = True\<rparr>]"

text \<open>
  The functions below take the catalogue as their first argument \<open>defs\<close>; the program
  runs them on \<open>WEAPON_DEFS\<close>. \<open>skins\<close> are the results of \<^verbatim>\<open>randInt(0, SKIN_LIBRARY.length)\<close>.
\<close>

definition initWeaponState :: "weapon_def list \<Rightarrow> int list \<Rightarrow> weapon_state list" where
  "initWeaponState defs skins =
     map (\<lambda>(d, k). \<lparr>ammo = mag d, reserve = reserve_cap d, lastShotTime = 0,
                       reloading = False, skinIndex = k\<rparr>) (zip defs skins)"

definition getCurrentWeaponDef :: "weapon_def list \<Rightarrow> game \<Rightarrow> weapon_def" where
  "getCurrentWeaponDef defs s = defs ! currentWeaponIndex s"

definition getCurrentWeaponState :: "game \<Rightarrow> weapon_state" where
  "getCurrentWeaponState s = weaponState s ! currentWeaponIndex s"

text \<open>Assignment to a field of the object \<^verbatim>\<open>weaponState[i]\<close>.\<close>

definition setWeaponState :: "nat \<Rightarrow> weapon_state \<Rightarrow> game \<Rightarrow> game" where
  "setWeaponState i st s = s\<lparr>weaponState := (weaponState s)[i := st]\<rparr>"

definition buildWeaponModel :: "game \<Rightarrow> game" where
  "buildWeaponModel s = s\<lparr>events := events s @ [WeaponModelBuilt]\<rparr>"

definition switchWeapon :: "weapon_def list \<Rightarrow> int \<Rightarrow> game \<Rightarrow> game" where
  "switchWeapon defs nextIndex s =
     (let n1 = (if nextIndex < 0 then int (length defs) - 1 else nextIndex);
          n2 = (if n1 \<ge> int (length defs) then 0 else n1)
      in if int (currentWeaponIndex s) = n2 then s
         else updateHUD (buildWeaponModel (s\<lparr>currentWeaponIndex := nat n2\<rparr>)))"

definition tryReload :: "weapon_def list \<Rightarrow> game \<Rightarrow> game" where
  "tryReload defs s =
     (let def = getCurrentWeaponDef defs s;
          st = getCurrentWeaponState s
      in if reloading st then s
         else if ammo st \<ge> mag def \<or> reserve st \<le> 0 then s
         else setTimeout (ReloadDone (currentWeaponIndex s)) (reload def * 1000)
                ((setWeaponState (currentWeaponIndex s) (st\<lparr>reloading := True\<rparr>) s)
                   \<lparr>statusText := ''Reloading...''\<rparr>))"

text \<open>
  The closure that \<open>tryReload\<close> hands to \<^verbatim>\<open>setTimeout\<close>. It keeps the \<^verbatim>\<open>def\<close> and the
  \<^verbatim>\<open>st\<close> of the weapon that was current when the reload started: weapon \<open>i\<close>.
\<close>

definition reloadDone :: "weapon_def list \<Rightarrow> nat \<Rightarrow> game \<Rightarrow> game" where
  "reloadDone defs i s =
     (let def = defs ! i;
          st = weaponState s ! i;
          needed = mag def - ammo st;
          take = min needed (reserve st);
          st' = st\<lparr>ammo := ammo st + take, reserve := reserve st - take, reloading := False\<rparr>
      in updateHUD ((setWeaponState i st' s)\<lparr>statusText := []\<rparr>))"

text \<open>
  \<open>canShoot\<close> returns its answer and the state, which \<open>tryReload\<close> may have changed.
  In JavaScript \<^verbatim>\<open>60000 / 0\<close> is \<^verbatim>\<open>Infinity\<close>, which no elapsed time reaches; HOL's
  \<open>60000 / 0 = 0\<close> is kept out by the test on \<open>rpm\<close>.
\<close>

definition canShoot :: "weapon_def list \<Rightarrow> real \<Rightarrow> game \<Rightarrow> bool \<times> game" where
  "canShoot defs now s =
     (let def = getCurrentWeaponDef defs s;
          st = getCurrentWeaponState s
      in if reloading st then (False, s)
         else if ammo st \<le> 0 then (False, tryReload defs s)
         else (rpm def \<noteq> 0 \<and> now - lastShotTime st \<ge> 60000 / rpm def, s))"

subsection \<open>Enemies\<close>

text \<open>
  \<open>rx\<close> and \<open>rz\<close> are the calls of \<^verbatim>\<open>Math.random()\<close> in \<^verbatim>\<open>setEnemyRandomPosition\<close>. The new
  enemy object and its mesh get the next two references.
\<close>

definition createEnemy :: "real \<Rightarrow> real \<Rightarrow> game \<Rightarrow> game" where
  "createEnemy rx rz s =
     (let e = nextRef s;
          m = nextRef s + 1;
          en = \<lparr>mesh = m,
                eposition = Vec3 (randFloat (- WORLD_SIZE / 2) (WORLD_SIZE / 2) rx) 12
                                 (randFloat (- WORLD_SIZE / 2) (WORLD_SIZE / 2) rz),
                barScale = 1, barColor = 0x00ff6a, ehealth = 100, estate = Patrol,
                nextWanderTime = 0, wanderDir = Vec3 1 0 0, elastShotTime = 0\<rparr>;
          em = enemyManager s
      in s\<lparr>heap := (heap s)(e := en),
           nextRef := nextRef s + 2,
           enemyManager := em\<lparr>enemies := enemies em @ [e],
                              hitMeshes := hitMeshes em @ [m],
                              meshToEnemy := (meshToEnemy em)(m \<mapsto> e)\<rparr>\<rparr>)"

definition applyDamageToEnemy :: "nat \<Rightarrow> int \<Rightarrow> game \<Rightarrow> game" where
  "applyDamageToEnemy e dmg s =
     (let en0 = heap s e;
          en1 = en0\<lparr>ehealth := ehealth en0 - dmg\<rparr>;
          en2 = en1\<lparr>barScale := clamp (real_of_int (ehealth en1) / 100) 0 1\<rparr>;
          en3 = en2\<lparr>barColor := (if ehealth en2 > 30 then 0x00ff6a else 0xff3b30)\<rparr>;
          s1 = s\<lparr>heap := (heap s)(e := en3)\<rparr>;
          em = enemyManager s1
      in if ehealth en3 \<le> 0
         then setTimeout CreateEnemy 2000
                (s1\<lparr>enemyManager :=
                      em\<lparr>meshToEnemy := (meshToEnemy em)(mesh en3 := None),
                         hitMeshes := filter (\<lambda>m. m \<noteq> mesh en3) (hitMeshes em),
                         enemies := filter (\<lambda>x. x \<noteq> e) (enemies em)\<rparr>\<rparr>)
         else s1)"

subsection \<open>Hit queries\<close>

text \<open>
  \<^verbatim>\<open>THREE.Raycaster\<close> is library code. Its geometry is the parameter \<open>cast\<close>: for the
  origin, the direction and the far limit of a ray and an object, the distance and the
  point of every intersection of the ray with that object.
  \<^verbatim>\<open>intersectObjects(objects, true)\<close> tests the objects it is given (the meshes of the
  game have no children) and returns the intersections by ascending distance.
\<close>

record hit =
  hdistance :: real
  hpoint :: vec3
  hobject :: nat

type_synonym raycast = "vec3 \<Rightarrow> vec3 \<Rightarrow> real \<Rightarrow> nat \<Rightarrow> (real \<times> vec3) list"

definition intersectObjects :: "raycast \<Rightarrow> vec3 \<Rightarrow> vec3 \<Rightarrow> real \<Rightarrow> nat list \<Rightarrow> hit list" where
  "intersectObjects cast origin dir far objects =
     sort_key hdistance
       (concat (map (\<lambda>m. map (\<lambda>(d, p). \<lparr>hdistance = d, hpoint = p, hobject = m\<rparr>)
                            (cast origin dir far m)) objects))"

definition spawnImpact :: "vec3 \<Rightarrow> game \<Rightarrow> game" where
  "spawnImpact point s = s\<lparr>events := events s @ [Impact point]\<rparr>"

definition spawnHitMarker :: "vec3 \<Rightarrow> game \<Rightarrow> game" where
  "spawnHitMarker point s = s\<lparr>events := events s @ [HitMarker point]\<rparr>"

text \<open>\<^verbatim>\<open>muzzleFlash\<close> exists once \<^verbatim>\<open>initWorld\<close> has built the weapon model.\<close>

definition flashMuzzle :: "game \<Rightarrow> game" where
  "flashMuzzle s = s\<lparr>events := events s @ [MuzzleFlash]\<rparr>"

definition logQuery :: "pool \<Rightarrow> vec3 \<Rightarrow> vec3 \<Rightarrow> real \<Rightarrow> game \<Rightarrow> game" where
  "logQuery p origin dir far s = s\<lparr>events := events s @ [RayQuery p origin dir far]\<rparr>"

text \<open>The direction of one shot: \<open>r1\<close>, \<open>r2\<close>, \<open>r3\<close> are its three calls of \<^verbatim>\<open>Math.random()\<close>.\<close>

definition shotDirection :: "weapon_def \<Rightarrow> vec3 \<Rightarrow> real \<Rightarrow> real \<Rightarrow> real \<Rightarrow> vec3" where
  "shotDirection def base r1 r2 r3 =
     normalize (Vec3 (vx base + (r1 - 0.5) * spread def)
                     (vy base + (r2 - 0.5) * spread def)
                     (vz base + (r3 - 0.5) * spread def * 0.2))"

definition worldImpact :: "raycast \<Rightarrow> vec3 \<Rightarrow> vec3 \<Rightarrow> real \<Rightarrow> game \<Rightarrow> game" where
  "worldImpact cast origin dir far s =
     (let s1 = logQuery WorldPool origin dir far s
      in case intersectObjects cast origin dir far (worldColliders s1) of
           [] \<Rightarrow> s1
         | h # _ \<Rightarrow> spawnImpact (hpoint h) s1)"

definition performRaycastShot ::
  "raycast \<Rightarrow> weapon_def \<Rightarrow> int \<Rightarrow> real \<Rightarrow> real \<Rightarrow> real \<Rightarrow> game \<Rightarrow> game" where
  "performRaycastShot cast def dmg r1 r2 r3 s =
     (let shootPoint = cposition (camera s);
          shootDirection = shotDirection def (aim (camera s)) r1 r2 r3;
          s1 = logQuery EnemyPool shootPoint shootDirection (wrange def) s
      in case intersectObjects cast shootPoint shootDirection (wrange def)
                (hitMeshes (enemyManager s1)) of
           [] \<Rightarrow> worldImpact cast shootPoint shootDirection (wrange def) s1
         | h # _ \<Rightarrow>
             (case meshToEnemy (enemyManager s1) (hobject h) of
                None \<Rightarrow> worldImpact cast shootPoint shootDirection (wrange def) s1
              | Some e \<Rightarrow> spawnHitMarker (hpoint h) (applyDamageToEnemy e dmg s1)))"

text \<open>
  The loop \<^verbatim>\<open>for (let i = 0; i < (def.pellets || 8); i++)\<close>. Pellet \<open>i\<close> consumes the
  calls \<open>3 i\<close>, \<open>3 i + 1\<close> and \<open>3 i + 2\<close> of \<^verbatim>\<open>Math.random()\<close>.
\<close>

definition pelletCount :: "weapon_def \<Rightarrow> nat" where
  "pelletCount def = (case pellets def of None \<Rightarrow> 8 | Some n \<Rightarrow> if n = 0 then 8 else n)"

function pelletLoop ::
  "raycast \<Rightarrow> weapon_def \<Rightarrow> (nat \<Rightarrow> real) \<Rightarrow> nat \<Rightarrow> nat \<Rightarrow> game \<Rightarrow> game" where
  "pelletLoop cast def rolls i n s =
     (if i < n
      then pelletLoop cast def rolls (i + 1) n
             (performRaycastShot cast def (damage def)
                (rolls (3 * i)) (rolls (3 * i + 1)) (rolls (3 * i + 2)) s)
      else s)"
  by pat_completeness auto
termination
  by (relation "measure (\<lambda>(cast, def, rolls, i, n, s). n - i)") auto

declare pelletLoop.simps [simp del]

text \<open>
  \<open>shoot\<close> reads the clock twice: \<open>now1\<close> inside \<open>canShoot\<close>, \<open>now2\<close> for the time stamp.
\<close>

definition shoot ::
  "weapon_def list \<Rightarrow> raycast \<Rightarrow> real \<Rightarrow> real \<Rightarrow> (nat \<Rightarrow> real) \<Rightarrow> game \<Rightarrow> game" where
  "shoot defs cast now1 now2 rolls s =
     (let def = getCurrentWeaponDef defs s;
          i = currentWeaponIndex s;
          (ok, s1) = canShoot defs now1 s
      in if \<not> ok then s1
         else
           let s2 = setWeaponState i ((weaponState s1 ! i)\<lparr>lastShotTime := now2\<rparr>) s1;
               s3 = (if key def = ''shotgun''
                     then pelletLoop cast def rolls 0 (pelletCount def) s2
                     else performRaycastShot cast def (damage def)
                            (rolls 0) (rolls 1) (rolls 2) s2);
               s4 = setWeaponState i
                      ((weaponState s3 ! i)\<lparr>ammo := ammo (weaponState s3 ! i) - 1\<rparr>) s3
           in flashMuzzle (updateHUD s4))"

subsection \<open>The shot of an enemy\<close>



subsection \<open>Deferred callbacks\<close>

definition runCallback :: "weapon_def list \<Rightarrow> callback \<Rightarrow> real \<Rightarrow> real \<Rightarrow> game \<Rightarrow> game" where
  "runCallback defs cb rx rz s =
     (case cb of
        ReloadDone i \<Rightarrow> reloadDone defs i s
      | RespawnPlayer \<Rightarrow> respawnPlayer s
      | CreateEnemy \<Rightarrow> createEnemy rx rz s)"

subsection \<open>Locomotion\<close>

definition updateMovement :: "real \<Rightarrow> game \<Rightarrow> game" where
  "updateMovement delta s =
     (let inp = input s;
          k = Vec3 ((if left inp then - 1 else 0) + (if right inp then 1 else 0)) 0
                   ((if forward inp then - 1 else 0) + (if backward inp then 1 else 0));
          keyDir =
            (if lengthSq k > 0
             then let n = normalize k;
                      y = yaw (camera s);
                      dirX = vx n * cos y - vz n * sin y;
                      dirZ = vx n * sin y + vz n * cos y
                  in Vec3 dirX 0 dirZ
             else k);
          speed = PLAYER_SPEED * (if sprint inp then PLAYER_SPRINT_MULTIPLIER else 1);
          accel = 600;
          targetVel = multiplyScalar keyDir speed;
          dv = subVectors targetVel (velocity (player s));
          accelStep = clamp (accel * delta) 0 1;
          v1 = addScaledVector (velocity (player s)) dv accelStep;
          v2 = (if \<not> onGround (player s) then Vec3 (vx v1) (vy v1 - GRAVITY * delta) (vz v1)
                else v1);
          jumping = (onGround (player s) \<and> jump inp);
          v3 = (if jumping then Vec3 (vx v2) PLAYER_JUMP_VELOCITY (vz v2) else v2);
          g3 = (if jumping then False else onGround (player s));
          p1 = addScaledVector (cposition (camera s)) v3 delta;
          groundY = 24;
          landed = (vy p1 \<le> groundY);
          p2 = (if landed then Vec3 (vx p1) groundY (vz p1) else p1);
          v4 = (if landed then Vec3 (vx v3) 0 (vz v3) else v3);
          g4 = (if landed then True else g3);
          p3 = Vec3 (clamp (vx p2) (- WORLD_SIZE / 2 + 10) (WORLD_SIZE / 2 - 10)) (vy p2)
                    (clamp (vz p2) (- WORLD_SIZE / 2 + 10) (WORLD_SIZE / 2 - 10))
      in s\<lparr>player := (player s)\<lparr>velocity := v4, onGround := g4\<rparr>,
           camera := (camera s)\<lparr>cposition := p3\<rparr>\<rparr>)"

subsection \<open>The state at start-up\<close>

text \<open>The globals as the module initialises them, before \<^verbatim>\<open>initWorld\<close> adds enemies.\<close>

definition initGame :: game where
  "initGame =
     \<lparr>player = \<lparr>velocity = Vec3 0 0 0, onGround = True, health = PLAYER_MAX_HEALTH,
                 lastDamageTime = 0\<rparr>,
      input = \<lparr>forward = False, backward = False, left = False, right = False,
                jump = False, sprint = False, shooting = False\<rparr>,
      camera = \<lparr>cposition = Vec3 0 24 0, yaw = 0, aim = Vec3 0 0 (- 1)\<rparr>,
      currentWeaponIndex = 2,
      weaponState = initWeaponState WEAPON_DEFS [0, 1, 2, 3, 4, 5],
      enemyManager = \<lparr>enemies = [], hitMeshes = [], meshToEnemy = Map.empty\<rparr>,
      heap = (\<lambda>_. \<lparr>mesh = 0, eposition = Vec3 0 0 0, barScale = 1, barColor = 0,
                     ehealth = 0, estate = Patrol, nextWanderTime = 0,
                     wanderDir = Vec3 1 0 0, elastShotTime = 0\<rparr>),
      nextRef = 0,
      worldColliders = [],
      timers = [],
      statusText = [],
      events = []\<rparr>"

subsection \<open>Sequences of calls and sample states\<close>

text \<open>A sequence of calls of \<open>applyDamageToPlayer\<close>, each with its amount and its clock.\<close>

fun damageCalls :: "(int \<times> real) list \<Rightarrow> game \<Rightarrow> game" where
  "damageCalls [] s = s"
| "damageCalls ((dmg, now) # cs) s = damageCalls cs (applyDamageToPlayer dmg now s)"

text \<open>The start-up state with the player at health 10.\<close>

definition lowHealthGame :: game where
  "lowHealthGame = initGame\<lparr>player := (player initGame)\<lparr>health := 10\<rparr>\<rparr>"

text \<open>The start-up state with \<open>a\<close> rounds in the magazine of the rifle and \<open>r\<close> in reserve.\<close>

definition rifleGame :: "int \<Rightarrow> int \<Rightarrow> game" where
  "rifleGame a r =
     setWeaponState 2 ((weaponState initGame ! 2)\<lparr>ammo := a, reserve := r\<rparr>) initGame"

text \<open>A world in which no ray meets anything.\<close>

definition noHits :: raycast where
  "noHits origin d far m = []"

text \<open>
  The invariant of the enemy registry: every mesh of the pool is a key of the lookup
  map, the enemy found there owns that mesh, and both were allocated.
\<close>

definition enemiesWf :: "game \<Rightarrow> bool" where
  "enemiesWf s =
     list_all (\<lambda>m. case meshToEnemy (enemyManager s) m of
                      None \<Rightarrow> False
                    | Some e \<Rightarrow> mesh (heap s e) = m \<and> e < nextRef s \<and> m < nextRef s)
       (hitMeshes (enemyManager s))"

text \<open>The enemy that a ray strikes, as \<open>performRaycastShot\<close> decides it.\<close>

definition struckEnemy :: "raycast \<Rightarrow> vec3 \<Rightarrow> vec3 \<Rightarrow> real \<Rightarrow> game \<Rightarrow> (hit \<times> nat) option" where
  "struckEnemy cast origin d far s =
     (case intersectObjects cast origin d far (hitMeshes (enemyManager s)) of
        [] \<Rightarrow> None
      | h # _ \<Rightarrow> map_option (Pair h) (meshToEnemy (enemyManager s) (hobject h)))"

text \<open>The number of hit queries against pool \<open>p\<close> in a trace.\<close>

definition countQueries :: "pool \<Rightarrow> event list \<Rightarrow> nat" where
  "countQueries p evs =
     length (filter (\<lambda>ev. case ev of RayQuery q _ _ _ \<Rightarrow> q = p | _ \<Rightarrow> False) evs)"

text \<open>The start-up state after \<^verbatim>\<open>createEnemy()\<close> has run twice.\<close>

definition twoEnemies :: game where
  "twoEnemies = createEnemy 0.75 0.5 (createEnemy 0.5 0.25 initGame)"

text \<open>A world in which every ray meets mesh 3 at distance 40 and mesh 1 at distance 90.\<close>

definition hitsBoth :: raycast where
  "hitsBoth origin d far m =
     (if m = 3 then [(40, Vec3 0 12 (- 40))] else if m = 1 then [(90, Vec3 0 12 (- 90))] else [])"

text \<open>The state with two enemies after the player has switched to the shotgun.\<close>

definition shotgunGame :: game where
  "shotgunGame = switchWeapon WEAPON_DEFS 3 twoEnemies"

text \<open>
  The pellet direction in the words of the specification: offsets on the horizontal
  axis \<open>x\<close> and on the vertical axis \<open>y\<close>, the vertical one scaled by 0.2.
\<close>

definition specShotDirection :: "weapon_def \<Rightarrow> vec3 \<Rightarrow> real \<Rightarrow> real \<Rightarrow> vec3" where
  "specShotDirection def base rh rv =
     normalize (Vec3 (vx base + (rh - 0.5) * spread def)
                     (vy base + (rv - 0.5) * spread def * 0.2)
                     (vz base))"

text \<open>The start-up state with the player in the air, rising at 100 units per second.\<close>

definition airborneGame :: game where
  "airborneGame =
     initGame\<lparr>player := (player initGame)\<lparr>velocity := Vec3 0 100 0, onGround := False\<rparr>,
               camera := (camera initGame)\<lparr>cposition := Vec3 0 100 0\<rparr>\<rparr>"

section \<open>Properties\<close>

subsection \<open>Auxiliary facts\<close>

lemma applyDamageToPlayer_health:
  "health (player (applyDamageToPlayer dmg now s)) =
     (if now - lastDamageTime (player s) < 200 then health (player s)
      else max 0 (health (player s) - dmg))"
  by (simp add: applyDamageToPlayer_def updateHUD_def setTimeout_def Let_def)

lemma applyDamageToPlayer_stamp:
  "lastDamageTime (player (applyDamageToPlayer dmg now s)) =
     (if now - lastDamageTime (player s) < 200 then lastDamageTime (player s) else now)"
  by (simp add: applyDamageToPlayer_def updateHUD_def setTimeout_def Let_def)

lemma applyDamageToPlayer_ignored:
  "now - lastDamageTime (player s) < 200 \<Longrightarrow> applyDamageToPlayer dmg now s = s"
  by (simp add: applyDamageToPlayer_def)

lemma applyDamageToPlayer_timers:
  "timers (applyDamageToPlayer dmg now s) =
     (if \<not> now - lastDamageTime (player s) < 200 \<and> health (player s) - dmg \<le> 0
      then timers s @ [(2000, RespawnPlayer)] else timers s)"
  by (simp add: applyDamageToPlayer_def updateHUD_def setTimeout_def Let_def)

lemma damageCalls_nonneg:
  "0 \<le> health (player s) \<Longrightarrow> 0 \<le> health (player (damageCalls cs s))"
  by (induction cs arbitrary: s) (auto simp: applyDamageToPlayer_health)

lemma respawnPlayer_player:
  "player (respawnPlayer s) =
     (player s)\<lparr>velocity := Vec3 0 0 0, health := PLAYER_MAX_HEALTH\<rparr>"
  by (simp add: respawnPlayer_def updateHUD_def)

lemma respawnPlayer_fields:
  "camera (respawnPlayer s) = (camera s)\<lparr>cposition := Vec3 0 24 0\<rparr>"
  "statusText (respawnPlayer s) = []"
  "weaponState (respawnPlayer s) = weaponState s"
  "currentWeaponIndex (respawnPlayer s) = currentWeaponIndex s"
  "enemyManager (respawnPlayer s) = enemyManager s"
  "heap (respawnPlayer s) = heap s"
  "nextRef (respawnPlayer s) = nextRef s"
  "worldColliders (respawnPlayer s) = worldColliders s"
  "timers (respawnPlayer s) = timers s"
  "input (respawnPlayer s) = input s"
  "events (respawnPlayer s) = events s @ [HudRefresh]"
  by (simp_all add: respawnPlayer_def updateHUD_def)

lemma lowHealthGame_player:
  "player lowHealthGame = \<lparr>velocity = Vec3 0 0 0, onGround = True, health = 10, lastDamageTime = 0\<rparr>"
  "timers lowHealthGame = []"
  by (simp_all add: lowHealthGame_def initGame_def)

subsection \<open>Damage to the player\<close>

text \<open>
  Claim C3. A call of \<open>applyDamageToPlayer\<close> less than 200 ms after the last accepted one
  returns the state as it was. Any other call sets \<open>lastDamageTime\<close> to the clock and
  leaves the health at the old health minus the amount, or at 0 when that is negative.
  From a health that is not negative, no sequence of calls makes it negative.
\<close>

theorem damagePlayer_window_and_floor:
  "(now - lastDamageTime (player s) < 200 \<longrightarrow> applyDamageToPlayer dmg now s = s) \<and>
   (\<not> now - lastDamageTime (player s) < 200 \<longrightarrow>
      lastDamageTime (player (applyDamageToPlayer dmg now s)) = now \<and>
      health (player (applyDamageToPlayer dmg now s)) = max 0 (health (player s) - dmg)) \<and>
   (0 \<le> health (player s) \<longrightarrow> 0 \<le> health (player (damageCalls cs s)))"
  by (simp add: applyDamageToPlayer_health applyDamageToPlayer_stamp
      applyDamageToPlayer_ignored damageCalls_nonneg)

theorem damagePlayer_window_and_floor_witness:
  "applyDamageToPlayer 14 150 lowHealthGame = lowHealthGame \<and>
   lastDamageTime (player (applyDamageToPlayer 14 250 lowHealthGame)) = 250 \<and>
   health (player (applyDamageToPlayer 14 250 lowHealthGame)) = 0 \<and>
   0 \<le> health (player (damageCalls [(4, 250), (99, 300), (90, 460)] lowHealthGame))"
proof -
  have inside: "150 - lastDamageTime (player lowHealthGame) < 200"
    by (simp add: lowHealthGame_player)
  have outside: "\<not> 250 - lastDamageTime (player lowHealthGame) < 200"
    by (simp add: lowHealthGame_player)
  have alive: "0 \<le> health (player lowHealthGame)"
    by (simp add: lowHealthGame_player)
  from damagePlayer_window_and_floor [of 150 lowHealthGame 14 "[]"] inside
  have "applyDamageToPlayer 14 150 lowHealthGame = lowHealthGame"
    by blast
  moreover
  from damagePlayer_window_and_floor
         [of 250 lowHealthGame 14 "[(4, 250), (99, 300), (90, 460)]"] outside alive
  have "lastDamageTime (player (applyDamageToPlayer 14 250 lowHealthGame)) = 250 \<and>
        health (player (applyDamageToPlayer 14 250 lowHealthGame))
          = max 0 (health (player lowHealthGame) - 14) \<and>
        0 \<le> health (player (damageCalls [(4, 250), (99, 300), (90, 460)] lowHealthGame))"
    by blast
  ultimately show ?thesis
    by (simp add: lowHealthGame_player)
qed

subsection \<open>Respawn\<close>

text \<open>
  Against claim C9: \<open>respawnPlayer\<close> does not touch \<open>lastDamageTime\<close>. The player at
  health 10 takes 14 at 1000 ms (respawn scheduled), is hit again at 2900 ms while down,
  and respawns; the damage of 3050 ms is then ignored because of the hit at 2900 ms.
\<close>

theorem respawn_keeps_damage_stamp_counterexample:
  "(let s1 = applyDamageToPlayer 14 1000 lowHealthGame;
        s2 = applyDamageToPlayer 6 2900 s1;
        s3 = respawnPlayer s2
    in health (player s1) = 0 \<and>
       hd (timers s1) = (2000, RespawnPlayer) \<and>
       health (player s3) = PLAYER_MAX_HEALTH \<and>
       lastDamageTime (player s3) = 2900 \<and>
       applyDamageToPlayer 10 3050 s3 = s3)"
  by (simp add: Let_def applyDamageToPlayer_health applyDamageToPlayer_stamp
      applyDamageToPlayer_timers applyDamageToPlayer_ignored respawnPlayer_player
      lowHealthGame_player)

text \<open>
  Claim C9, amended. Damage that brings the health to 0 schedules \<open>RespawnPlayer\<close> after
  2000 ms. The respawn sets the health to \<open>PLAYER_MAX_HEALTH\<close>, the position to
  \<open>(0, 24, 0)\<close>, the velocity to zero and the status text to the empty string, and it
  leaves \<open>lastDamageTime\<close> as it was.
\<close>

theorem respawn_after_lethal_damage:
  "(\<not> now - lastDamageTime (player s) < 200 \<and> health (player s) - dmg \<le> 0 \<longrightarrow>
      health (player (applyDamageToPlayer dmg now s)) = 0 \<and>
      timers (applyDamageToPlayer dmg now s) = timers s @ [(2000, RespawnPlayer)]) \<and>
   runCallback defs RespawnPlayer rx rz t = respawnPlayer t \<and>
   health (player (respawnPlayer t)) = PLAYER_MAX_HEALTH \<and>
   cposition (camera (respawnPlayer t)) = Vec3 0 24 0 \<and>
   velocity (player (respawnPlayer t)) = Vec3 0 0 0 \<and>
   statusText (respawnPlayer t) = [] \<and>
   lastDamageTime (player (respawnPlayer t)) = lastDamageTime (player t)"
  by (simp add: applyDamageToPlayer_health applyDamageToPlayer_timers runCallback_def
      respawnPlayer_player respawnPlayer_fields)

theorem respawn_after_lethal_damage_witness:
  "health (player (applyDamageToPlayer 14 1000 lowHealthGame)) = 0 \<and>
   timers (applyDamageToPlayer 14 1000 lowHealthGame) = [(2000, RespawnPlayer)] \<and>
   health (player (runCallback WEAPON_DEFS RespawnPlayer 0 0
                     (applyDamageToPlayer 14 1000 lowHealthGame))) = 100 \<and>
   lastDamageTime (player (runCallback WEAPON_DEFS RespawnPlayer 0 0
                     (applyDamageToPlayer 14 1000 lowHealthGame))) = 1000"
proof -
  have lethal: "\<not> 1000 - lastDamageTime (player lowHealthGame) < 200 \<and>
                health (player lowHealthGame) - 14 \<le> 0"
    by (simp add: lowHealthGame_player)
  from respawn_after_lethal_damage
         [of 1000 lowHealthGame 14 WEAPON_DEFS 0 0 "applyDamageToPlayer 14 1000 lowHealthGame"]
       lethal
  show ?thesis
    by (simp add: lowHealthGame_player applyDamageToPlayer_stamp PLAYER_MAX_HEALTH_def)
qed

text \<open>
  Claim C10. \<open>respawnPlayer\<close> changes the position, the velocity, the health and the
  status text and refreshes the HUD. The weapon states, the current weapon, the enemy
  registry and the enemies themselves, the pending timers and every other field are as
  before; a reload that completes after the respawn gives the weapon states it would
  have given without it.
\<close>

theorem respawn_frame:
  "weaponState (respawnPlayer s) = weaponState s \<and>
   currentWeaponIndex (respawnPlayer s) = currentWeaponIndex s \<and>
   enemyManager (respawnPlayer s) = enemyManager s \<and>
   heap (respawnPlayer s) = heap s \<and>
   nextRef (respawnPlayer s) = nextRef s \<and>
   worldColliders (respawnPlayer s) = worldColliders s \<and>
   timers (respawnPlayer s) = timers s \<and>
   input (respawnPlayer s) = input s \<and>
   onGround (player (respawnPlayer s)) = onGround (player s) \<and>
   lastDamageTime (player (respawnPlayer s)) = lastDamageTime (player s) \<and>
   yaw (camera (respawnPlayer s)) = yaw (camera s) \<and>
   aim (camera (respawnPlayer s)) = aim (camera s) \<and>
   events (respawnPlayer s) = events s @ [HudRefresh] \<and>
   weaponState (reloadDone defs i (respawnPlayer s)) = weaponState (reloadDone defs i s)"
  by (simp add: respawnPlayer_player respawnPlayer_fields reloadDone_def setWeaponState_def
      updateHUD_def Let_def)

subsection \<open>Weapon runtime\<close>

lemma tryReload_noop:
  "reloading (getCurrentWeaponState s) \<or>
   ammo (getCurrentWeaponState s) \<ge> mag (getCurrentWeaponDef defs s) \<or>
   reserve (getCurrentWeaponState s) \<le> 0 \<Longrightarrow> tryReload defs s = s"
  by (auto simp: tryReload_def Let_def)

lemma tryReload_starts:
  assumes "\<not> reloading (getCurrentWeaponState s)"
    and "ammo (getCurrentWeaponState s) < mag (getCurrentWeaponDef defs s)"
    and "0 < reserve (getCurrentWeaponState s)"
  shows "tryReload defs s =
           s\<lparr>weaponState := (weaponState s)[currentWeaponIndex s :=
                                (getCurrentWeaponState s)\<lparr>reloading := True\<rparr>],
              timers := timers s @ [(reload (getCurrentWeaponDef defs s) * 1000,
                                     ReloadDone (currentWeaponIndex s))],
              statusText := ''Reloading...''\<rparr>"
  using assms by (simp add: tryReload_def Let_def setTimeout_def setWeaponState_def)

lemma reloadDone_weapon:
  "i < length (weaponState t) \<Longrightarrow>
   weaponState (reloadDone defs i t) ! i =
     (weaponState t ! i)
       \<lparr>ammo := ammo (weaponState t ! i) +
                  min (mag (defs ! i) - ammo (weaponState t ! i)) (reserve (weaponState t ! i)),
        reserve := reserve (weaponState t ! i) -
                  min (mag (defs ! i) - ammo (weaponState t ! i)) (reserve (weaponState t ! i)),
        reloading := False\<rparr>"
  by (simp add: reloadDone_def Let_def setWeaponState_def updateHUD_def)

lemma initGame_weapons:
  "weaponState initGame =
     [\<lparr>ammo = 15, reserve = 90, lastShotTime = 0, reloading = False, skinIndex = 0\<rparr>,
      \<lparr>ammo = 32, reserve = 192, lastShotTime = 0, reloading = False, skinIndex = 1\<rparr>,
      \<lparr>ammo = 30, reserve = 180, lastShotTime = 0, reloading = False, skinIndex = 2\<rparr>,
      \<lparr>ammo = 8, reserve = 48, lastShotTime = 0, reloading = False, skinIndex = 3\<rparr>,
      \<lparr>ammo = 5, reserve = 25, lastShotTime = 0, reloading = False, skinIndex = 4\<rparr>,
      \<lparr>ammo = 60, reserve = 360, lastShotTime = 0, reloading = False, skinIndex = 5\<rparr>]"
  "currentWeaponIndex initGame = 2"
  by (simp_all add: initGame_def initWeaponState_def WEAPON_DEFS_def)

lemma WEAPON_DEFS_ar:
  "WEAPON_DEFS ! 2 =
     \<lparr>key = ''ar'', name = ''Assault Rifle'', damage = 28, rpm = 700, mag = 30,
      reserve_cap = 180, reload = 1.8, spread = 0.008, wrange = 1100, pellets = None,
      automatic = True\<rparr>"
  by (simp add: WEAPON_DEFS_def)

lemma rifleGame_weapon:
  "currentWeaponIndex (rifleGame a r) = 2"
  "length (weaponState (rifleGame a r)) = 6"
  "weaponState (rifleGame a r) ! 2 =
     \<lparr>ammo = a, reserve = r, lastShotTime = 0, reloading = False, skinIndex = 2\<rparr>"
  "getCurrentWeaponState (rifleGame a r) =
     \<lparr>ammo = a, reserve = r, lastShotTime = 0, reloading = False, skinIndex = 2\<rparr>"
  "getCurrentWeaponDef WEAPON_DEFS (rifleGame a r) = WEAPON_DEFS ! 2"
  "timers (rifleGame a r) = []"
  by (simp_all add: rifleGame_def setWeaponState_def initGame_weapons getCurrentWeaponState_def
      getCurrentWeaponDef_def)
     (simp_all add: initGame_def)

lemma initGame_current:
  "length (weaponState initGame) = 6"
  "getCurrentWeaponState initGame =
     \<lparr>ammo = 30, reserve = 180, lastShotTime = 0, reloading = False, skinIndex = 2\<rparr>"
  "getCurrentWeaponDef WEAPON_DEFS initGame = WEAPON_DEFS ! 2"
  by (simp_all add: initGame_weapons getCurrentWeaponState_def getCurrentWeaponDef_def)

text \<open>
  Claim C2. With the current weapon reloading, or its magazine full, or its reserve
  empty, \<open>tryReload\<close> returns the state as it was (so a flag that was false stays
  false). In every other state of the data model (\<open>ammo \<le> mag\<close>, \<open>0 \<le> reserve\<close>) it sets
  \<open>reloading\<close> and schedules \<open>ReloadDone\<close> for that weapon after \<open>reload * 1000\<close> ms. The
  completion moves \<open>min (mag - ammo) reserve\<close> rounds from the reserve to the magazine
  and clears \<open>reloading\<close>, whenever it runs (last conjunct) and in particular right
  after the start.
\<close>

theorem reload_contract:
  assumes "currentWeaponIndex s < length (weaponState s)"
  shows
  "(reloading (getCurrentWeaponState s) \<or>
    ammo (getCurrentWeaponState s) = mag (getCurrentWeaponDef defs s) \<or>
    reserve (getCurrentWeaponState s) = 0 \<longrightarrow> tryReload defs s = s) \<and>
   (\<not> reloading (getCurrentWeaponState s) \<and>
    ammo (getCurrentWeaponState s) \<noteq> mag (getCurrentWeaponDef defs s) \<and>
    reserve (getCurrentWeaponState s) \<noteq> 0 \<and>
    ammo (getCurrentWeaponState s) \<le> mag (getCurrentWeaponDef defs s) \<and>
    0 \<le> reserve (getCurrentWeaponState s) \<longrightarrow>
      weaponState (tryReload defs s) =
        (weaponState s)[currentWeaponIndex s := (getCurrentWeaponState s)\<lparr>reloading := True\<rparr>] \<and>
      timers (tryReload defs s) =
        timers s @ [(reload (getCurrentWeaponDef defs s) * 1000,
                     ReloadDone (currentWeaponIndex s))] \<and>
      weaponState (runCallback defs (ReloadDone (currentWeaponIndex s)) rx rz (tryReload defs s))
          ! currentWeaponIndex s =
        (getCurrentWeaponState s)
          \<lparr>ammo := ammo (getCurrentWeaponState s) +
                     min (mag (getCurrentWeaponDef defs s) - ammo (getCurrentWeaponState s))
                         (reserve (getCurrentWeaponState s)),
           reserve := reserve (getCurrentWeaponState s) -
                     min (mag (getCurrentWeaponDef defs s) - ammo (getCurrentWeaponState s))
                         (reserve (getCurrentWeaponState s)),
           reloading := False\<rparr>) \<and>
   (i < length (weaponState t) \<longrightarrow>
      ammo (weaponState (reloadDone defs i t) ! i) =
        ammo (weaponState t ! i) +
          min (mag (defs ! i) - ammo (weaponState t ! i)) (reserve (weaponState t ! i)) \<and>
      reserve (weaponState (reloadDone defs i t) ! i) =
        reserve (weaponState t ! i) -
          min (mag (defs ! i) - ammo (weaponState t ! i)) (reserve (weaponState t ! i)) \<and>
      \<not> reloading (weaponState (reloadDone defs i t) ! i))"
proof (intro conjI impI)
  assume "reloading (getCurrentWeaponState s) \<or>
    ammo (getCurrentWeaponState s) = mag (getCurrentWeaponDef defs s) \<or>
    reserve (getCurrentWeaponState s) = 0"
  then show "tryReload defs s = s"
    by (intro tryReload_noop) auto
next
  assume otherwise: "\<not> reloading (getCurrentWeaponState s) \<and>
    ammo (getCurrentWeaponState s) \<noteq> mag (getCurrentWeaponDef defs s) \<and>
    reserve (getCurrentWeaponState s) \<noteq> 0 \<and>
    ammo (getCurrentWeaponState s) \<le> mag (getCurrentWeaponDef defs s) \<and>
    0 \<le> reserve (getCurrentWeaponState s)"
  then have started: "tryReload defs s =
           s\<lparr>weaponState := (weaponState s)[currentWeaponIndex s :=
                                (getCurrentWeaponState s)\<lparr>reloading := True\<rparr>],
              timers := timers s @ [(reload (getCurrentWeaponDef defs s) * 1000,
                                     ReloadDone (currentWeaponIndex s))],
              statusText := ''Reloading...''\<rparr>"
    by (intro tryReload_starts) auto
  show "weaponState (tryReload defs s) =
        (weaponState s)[currentWeaponIndex s := (getCurrentWeaponState s)\<lparr>reloading := True\<rparr>]"
    by (simp add: started)
  show "timers (tryReload defs s) =
        timers s @ [(reload (getCurrentWeaponDef defs s) * 1000,
                     ReloadDone (currentWeaponIndex s))]"
    by (simp add: started)
  have len: "currentWeaponIndex s < length (weaponState (tryReload defs s))"
    using assms by (simp add: started)
  show "weaponState (runCallback defs (ReloadDone (currentWeaponIndex s)) rx rz (tryReload defs s))
          ! currentWeaponIndex s =
        (getCurrentWeaponState s)
          \<lparr>ammo := ammo (getCurrentWeaponState s) +
                     min (mag (getCurrentWeaponDef defs s) - ammo (getCurrentWeaponState s))
                         (reserve (getCurrentWeaponState s)),
           reserve := reserve (getCurrentWeaponState s) -
                     min (mag (getCurrentWeaponDef defs s) - ammo (getCurrentWeaponState s))
                         (reserve (getCurrentWeaponState s)),
           reloading := False\<rparr>"
    using assms
    by (simp add: runCallback_def reloadDone_weapon [OF len])
       (simp add: started getCurrentWeaponDef_def)
next
  assume "i < length (weaponState t)"
  then show "ammo (weaponState (reloadDone defs i t) ! i) =
        ammo (weaponState t ! i) +
          min (mag (defs ! i) - ammo (weaponState t ! i)) (reserve (weaponState t ! i))"
    and "reserve (weaponState (reloadDone defs i t) ! i) =
        reserve (weaponState t ! i) -
          min (mag (defs ! i) - ammo (weaponState t ! i)) (reserve (weaponState t ! i))"
    and "\<not> reloading (weaponState (reloadDone defs i t) ! i)"
    by (simp_all add: reloadDone_weapon)
qed


theorem reload_contract_witness:
  "tryReload WEAPON_DEFS initGame = initGame \<and>
   timers (tryReload WEAPON_DEFS (rifleGame 12 7)) = [(1800, ReloadDone 2)] \<and>
   reloading (weaponState (tryReload WEAPON_DEFS (rifleGame 12 7)) ! 2) \<and>
   weaponState (runCallback WEAPON_DEFS (ReloadDone 2) 0 0 (tryReload WEAPON_DEFS (rifleGame 12 7))) ! 2 =
     \<lparr>ammo = 19, reserve = 0, lastShotTime = 0, reloading = False, skinIndex = 2\<rparr> \<and>
   ammo (weaponState (reloadDone WEAPON_DEFS 2 (rifleGame 25 100)) ! 2) = 30 \<and>
   reserve (weaponState (reloadDone WEAPON_DEFS 2 (rifleGame 25 100)) ! 2) = 95"
proof -
  have full: "currentWeaponIndex initGame < length (weaponState initGame)"
    "reloading (getCurrentWeaponState initGame) \<or>
     ammo (getCurrentWeaponState initGame) = mag (getCurrentWeaponDef WEAPON_DEFS initGame) \<or>
     reserve (getCurrentWeaponState initGame) = 0"
    by (simp_all add: initGame_weapons initGame_current WEAPON_DEFS_ar)
  have used: "currentWeaponIndex (rifleGame 12 7) < length (weaponState (rifleGame 12 7))"
    "\<not> reloading (getCurrentWeaponState (rifleGame 12 7)) \<and>
     ammo (getCurrentWeaponState (rifleGame 12 7))
       \<noteq> mag (getCurrentWeaponDef WEAPON_DEFS (rifleGame 12 7)) \<and>
     reserve (getCurrentWeaponState (rifleGame 12 7)) \<noteq> 0 \<and>
     ammo (getCurrentWeaponState (rifleGame 12 7))
       \<le> mag (getCurrentWeaponDef WEAPON_DEFS (rifleGame 12 7)) \<and>
     0 \<le> reserve (getCurrentWeaponState (rifleGame 12 7))"
    "(2::nat) < length (weaponState (rifleGame 25 100))"
    by (simp_all add: rifleGame_weapon WEAPON_DEFS_ar)
  from reload_contract [OF full(1), of WEAPON_DEFS 0 0 0 initGame] full(2)
  have "tryReload WEAPON_DEFS initGame = initGame"
    by blast
  moreover
  from reload_contract [OF used(1), of WEAPON_DEFS 0 0 2 "rifleGame 25 100"] used(2,3)
  have "weaponState (tryReload WEAPON_DEFS (rifleGame 12 7)) =
          (weaponState (rifleGame 12 7))[currentWeaponIndex (rifleGame 12 7) :=
             (getCurrentWeaponState (rifleGame 12 7))\<lparr>reloading := True\<rparr>]"
    and "timers (tryReload WEAPON_DEFS (rifleGame 12 7)) =
          timers (rifleGame 12 7) @
            [(reload (getCurrentWeaponDef WEAPON_DEFS (rifleGame 12 7)) * 1000,
              ReloadDone (currentWeaponIndex (rifleGame 12 7)))]"
    and "weaponState (runCallback WEAPON_DEFS (ReloadDone (currentWeaponIndex (rifleGame 12 7)))
                        0 0 (tryReload WEAPON_DEFS (rifleGame 12 7)))
           ! currentWeaponIndex (rifleGame 12 7) =
         (getCurrentWeaponState (rifleGame 12 7))
           \<lparr>ammo := ammo (getCurrentWeaponState (rifleGame 12 7)) +
                      min (mag (getCurrentWeaponDef WEAPON_DEFS (rifleGame 12 7)) -
                           ammo (getCurrentWeaponState (rifleGame 12 7)))
                          (reserve (getCurrentWeaponState (rifleGame 12 7))),
            reserve := reserve (getCurrentWeaponState (rifleGame 12 7)) -
                      min (mag (getCurrentWeaponDef WEAPON_DEFS (rifleGame 12 7)) -
                           ammo (getCurrentWeaponState (rifleGame 12 7)))
                          (reserve (getCurrentWeaponState (rifleGame 12 7))),
            reloading := False\<rparr>"
    and "ammo (weaponState (reloadDone WEAPON_DEFS 2 (rifleGame 25 100)) ! 2) =
           ammo (weaponState (rifleGame 25 100) ! 2) +
             min (mag (WEAPON_DEFS ! 2) - ammo (weaponState (rifleGame 25 100) ! 2))
                 (reserve (weaponState (rifleGame 25 100) ! 2))"
    and "reserve (weaponState (reloadDone WEAPON_DEFS 2 (rifleGame 25 100)) ! 2) =
           reserve (weaponState (rifleGame 25 100) ! 2) -
             min (mag (WEAPON_DEFS ! 2) - ammo (weaponState (rifleGame 25 100) ! 2))
                 (reserve (weaponState (rifleGame 25 100) ! 2))"
    by blast+
  ultimately show ?thesis
    by (simp add: rifleGame_weapon WEAPON_DEFS_ar)
qed

subsection \<open>Firing\<close>

lemma applyDamageToEnemy_weapons:
  "weaponState (applyDamageToEnemy e dmg s) = weaponState s"
  "currentWeaponIndex (applyDamageToEnemy e dmg s) = currentWeaponIndex s"
  "camera (applyDamageToEnemy e dmg s) = camera s"
  "worldColliders (applyDamageToEnemy e dmg s) = worldColliders s"
  "player (applyDamageToEnemy e dmg s) = player s"
  by (simp_all add: applyDamageToEnemy_def Let_def setTimeout_def)

lemma worldImpact_weapons:
  "weaponState (worldImpact cast origin d far s) = weaponState s"
  "currentWeaponIndex (worldImpact cast origin d far s) = currentWeaponIndex s"
  "camera (worldImpact cast origin d far s) = camera s"
  "worldColliders (worldImpact cast origin d far s) = worldColliders s"
  "enemyManager (worldImpact cast origin d far s) = enemyManager s"
  "player (worldImpact cast origin d far s) = player s"
  by (simp_all add: worldImpact_def Let_def logQuery_def spawnImpact_def split: list.splits)

lemma performRaycastShot_weapons:
  "weaponState (performRaycastShot cast def dmg r1 r2 r3 s) = weaponState s"
  "currentWeaponIndex (performRaycastShot cast def dmg r1 r2 r3 s) = currentWeaponIndex s"
  "camera (performRaycastShot cast def dmg r1 r2 r3 s) = camera s"
  "worldColliders (performRaycastShot cast def dmg r1 r2 r3 s) = worldColliders s"
  "player (performRaycastShot cast def dmg r1 r2 r3 s) = player s"
  by (simp_all add: performRaycastShot_def Let_def worldImpact_weapons applyDamageToEnemy_weapons
      spawnHitMarker_def logQuery_def split: list.splits option.splits)

lemma pelletLoop_weapons:
  "weaponState (pelletLoop cast def rolls i n s) = weaponState s \<and>
   currentWeaponIndex (pelletLoop cast def rolls i n s) = currentWeaponIndex s \<and>
   camera (pelletLoop cast def rolls i n s) = camera s"
proof (induction cast def rolls i n s rule: pelletLoop.induct)
  case (1 cast def rolls i n s)
  show ?case
  proof (cases "i < n")
    case True
    with "1.IH" show ?thesis
      by (subst (1 2 3) pelletLoop.simps) (simp add: performRaycastShot_weapons)
  next
    case False
    then show ?thesis
      by (subst (1 2 3) pelletLoop.simps) simp
  qed
qed

lemma tryReload_ammo:
  "currentWeaponIndex s < length (weaponState s) \<Longrightarrow>
   ammo (weaponState (tryReload defs s) ! currentWeaponIndex s) = ammo (getCurrentWeaponState s) \<and>
   currentWeaponIndex (tryReload defs s) = currentWeaponIndex s \<and>
   length (weaponState (tryReload defs s)) = length (weaponState s)"
  by (simp add: tryReload_def Let_def setTimeout_def setWeaponState_def getCurrentWeaponState_def)

lemma canShoot_cases:
  "canShoot defs now s =
     (if reloading (getCurrentWeaponState s) then (False, s)
      else if ammo (getCurrentWeaponState s) \<le> 0 then (False, tryReload defs s)
      else (rpm (getCurrentWeaponDef defs s) \<noteq> 0 \<and>
            now - lastShotTime (getCurrentWeaponState s) \<ge> 60000 / rpm (getCurrentWeaponDef defs s), s))"
  by (simp add: canShoot_def Let_def)

lemma canShoot_True:
  "fst (canShoot defs now s) \<Longrightarrow>
   snd (canShoot defs now s) = s \<and> \<not> reloading (getCurrentWeaponState s) \<and>
   0 < ammo (getCurrentWeaponState s) \<and> rpm (getCurrentWeaponDef defs s) \<noteq> 0 \<and>
   now - lastShotTime (getCurrentWeaponState s) \<ge> 60000 / rpm (getCurrentWeaponDef defs s)"
  by (auto simp: canShoot_cases split: if_splits)

lemma canShoot_ammo:
  "currentWeaponIndex s < length (weaponState s) \<Longrightarrow>
   ammo (weaponState (snd (canShoot defs now s)) ! currentWeaponIndex s) =
     ammo (getCurrentWeaponState s)"
  by (simp add: canShoot_cases tryReload_ammo) (simp add: getCurrentWeaponState_def)

lemma shoot_refused:
  "\<not> fst (canShoot defs now1 s) \<Longrightarrow> shoot defs cast now1 now2 rolls s = snd (canShoot defs now1 s)"
  by (cases "canShoot defs now1 s") (simp add: shoot_def Let_def)

lemma shoot_fired:
  assumes "fst (canShoot defs now1 s)" and "currentWeaponIndex s < length (weaponState s)"
  shows "weaponState (shoot defs cast now1 now2 rolls s) =
           (weaponState s)[currentWeaponIndex s :=
              (getCurrentWeaponState s)\<lparr>lastShotTime := now2,
                                        ammo := ammo (getCurrentWeaponState s) - 1\<rparr>]"
    and "currentWeaponIndex (shoot defs cast now1 now2 rolls s) = currentWeaponIndex s"
proof -
  from canShoot_True [OF assms(1)] have same: "snd (canShoot defs now1 s) = s" by simp
  obtain ok s1 where c: "canShoot defs now1 s = (ok, s1)" by (cases "canShoot defs now1 s")
  with assms(1) same have ok: "ok" and s1: "s1 = s" by simp_all
  show "weaponState (shoot defs cast now1 now2 rolls s) =
           (weaponState s)[currentWeaponIndex s :=
              (getCurrentWeaponState s)\<lparr>lastShotTime := now2,
                                        ammo := ammo (getCurrentWeaponState s) - 1\<rparr>]"
    using assms(2)
    by (simp add: shoot_def Let_def c ok s1 flashMuzzle_def updateHUD_def setWeaponState_def
        performRaycastShot_weapons pelletLoop_weapons getCurrentWeaponState_def)
  show "currentWeaponIndex (shoot defs cast now1 now2 rolls s) = currentWeaponIndex s"
    by (simp add: shoot_def Let_def c ok s1 flashMuzzle_def updateHUD_def setWeaponState_def
        performRaycastShot_weapons pelletLoop_weapons)
qed

text \<open>
  Claim C1. \<open>canShoot\<close> answers no while the current weapon reloads; with an empty
  magazine it answers no and the state is that of \<open>tryReload\<close>; with rounds in the
  magazine and a positive rate it answers yes exactly when
  \<open>now - lastShotTime \<ge> 60000 / rpm\<close>. If a first attempt at \<open>t1\<close> is let through and
  a second one follows at \<open>t2\<close> less than \<open>60000 / rpm\<close> ms later (the clock does not
  run backwards between the two reads of the first attempt), the magazine holds one
  round less than before, not two.
\<close>

theorem fire_gate:
  assumes "currentWeaponIndex s < length (weaponState s)"
  shows
  "(reloading (getCurrentWeaponState s) \<longrightarrow> canShoot defs now s = (False, s)) \<and>
   (\<not> reloading (getCurrentWeaponState s) \<and> ammo (getCurrentWeaponState s) = 0 \<longrightarrow>
      canShoot defs now s = (False, tryReload defs s)) \<and>
   (\<not> reloading (getCurrentWeaponState s) \<and> 0 < ammo (getCurrentWeaponState s) \<and>
    0 < rpm (getCurrentWeaponDef defs s) \<longrightarrow>
      canShoot defs now s =
        (now - lastShotTime (getCurrentWeaponState s) \<ge> 60000 / rpm (getCurrentWeaponDef defs s), s)) \<and>
   (fst (canShoot defs t1 s) \<and> t1 \<le> t1' \<and> t2 - t1 < 60000 / rpm (getCurrentWeaponDef defs s) \<longrightarrow>
      ammo (weaponState (shoot defs cast2 t2 t2' rolls2 (shoot defs cast1 t1 t1' rolls1 s))
              ! currentWeaponIndex s) = ammo (getCurrentWeaponState s) - 1)"
proof (intro conjI impI)
  show "reloading (getCurrentWeaponState s) \<Longrightarrow> canShoot defs now s = (False, s)"
    by (simp add: canShoot_cases)
  show "\<not> reloading (getCurrentWeaponState s) \<and> ammo (getCurrentWeaponState s) = 0 \<Longrightarrow>
      canShoot defs now s = (False, tryReload defs s)"
    by (simp add: canShoot_cases)
  show "\<not> reloading (getCurrentWeaponState s) \<and> 0 < ammo (getCurrentWeaponState s) \<and>
    0 < rpm (getCurrentWeaponDef defs s) \<Longrightarrow>
      canShoot defs now s =
        (now - lastShotTime (getCurrentWeaponState s) \<ge> 60000 / rpm (getCurrentWeaponDef defs s), s)"
    by (simp add: canShoot_cases)
next
  assume two: "fst (canShoot defs t1 s) \<and> t1 \<le> t1' \<and>
               t2 - t1 < 60000 / rpm (getCurrentWeaponDef defs s)"
  define i where "i = currentWeaponIndex s"
  define u where "u = shoot defs cast1 t1 t1' rolls1 s"
  have ws: "weaponState u = (weaponState s)[i :=
              (getCurrentWeaponState s)\<lparr>lastShotTime := t1',
                                        ammo := ammo (getCurrentWeaponState s) - 1\<rparr>]"
    and idx: "currentWeaponIndex u = i"
    using two assms by (simp_all add: u_def i_def shoot_fired)
  have len: "currentWeaponIndex u < length (weaponState u)"
    using assms by (simp add: ws idx i_def)
  have st: "getCurrentWeaponState u =
              (getCurrentWeaponState s)\<lparr>lastShotTime := t1',
                                        ammo := ammo (getCurrentWeaponState s) - 1\<rparr>"
    using assms by (simp add: getCurrentWeaponState_def ws idx i_def)
  have def: "getCurrentWeaponDef defs u = getCurrentWeaponDef defs s"
    by (simp add: getCurrentWeaponDef_def idx i_def)
  have "t2 - t1' < 60000 / rpm (getCurrentWeaponDef defs s)"
    using two by linarith
  then have refused: "\<not> fst (canShoot defs t2 u)"
    by (simp add: canShoot_cases st def)
  have "ammo (weaponState (shoot defs cast2 t2 t2' rolls2 u) ! currentWeaponIndex u) =
          ammo (getCurrentWeaponState u)"
    by (simp add: shoot_refused [OF refused] canShoot_ammo [OF len])
  then show "ammo (weaponState (shoot defs cast2 t2 t2' rolls2 (shoot defs cast1 t1 t1' rolls1 s))
              ! currentWeaponIndex s) = ammo (getCurrentWeaponState s) - 1"
    by (simp add: u_def [symmetric] idx i_def [symmetric] st)
qed


theorem fire_gate_witness:
  "canShoot WEAPON_DEFS 5000 (tryReload WEAPON_DEFS (rifleGame 12 7)) =
     (False, tryReload WEAPON_DEFS (rifleGame 12 7)) \<and>
   canShoot WEAPON_DEFS 5000 (rifleGame 0 7) = (False, tryReload WEAPON_DEFS (rifleGame 0 7)) \<and>
   canShoot WEAPON_DEFS 100 initGame = (True, initGame) \<and>
   canShoot WEAPON_DEFS 50 initGame = (False, initGame) \<and>
   ammo (weaponState (shoot WEAPON_DEFS noHits 150 150 (\<lambda>k. 0.5)
                        (shoot WEAPON_DEFS noHits 100 100 (\<lambda>k. 0.5) initGame)) ! 2) = 29"
proof -
  have busy: "currentWeaponIndex (tryReload WEAPON_DEFS (rifleGame 12 7))
                < length (weaponState (tryReload WEAPON_DEFS (rifleGame 12 7)))"
    "reloading (getCurrentWeaponState (tryReload WEAPON_DEFS (rifleGame 12 7)))"
    by (simp_all add: tryReload_starts rifleGame_weapon WEAPON_DEFS_ar getCurrentWeaponState_def)
  have empty: "currentWeaponIndex (rifleGame 0 7) < length (weaponState (rifleGame 0 7))"
    "\<not> reloading (getCurrentWeaponState (rifleGame 0 7)) \<and>
     ammo (getCurrentWeaponState (rifleGame 0 7)) = 0"
    by (simp_all add: rifleGame_weapon)
  have ready: "currentWeaponIndex initGame < length (weaponState initGame)"
    "\<not> reloading (getCurrentWeaponState initGame) \<and> 0 < ammo (getCurrentWeaponState initGame) \<and>
     0 < rpm (getCurrentWeaponDef WEAPON_DEFS initGame)"
    by (simp_all add: initGame_weapons initGame_current WEAPON_DEFS_ar)
  from fire_gate [OF busy(1), of WEAPON_DEFS 5000] busy(2)
  have "canShoot WEAPON_DEFS 5000 (tryReload WEAPON_DEFS (rifleGame 12 7)) =
          (False, tryReload WEAPON_DEFS (rifleGame 12 7))"
    by blast
  moreover
  from fire_gate [OF empty(1), of WEAPON_DEFS 5000] empty(2)
  have "canShoot WEAPON_DEFS 5000 (rifleGame 0 7) = (False, tryReload WEAPON_DEFS (rifleGame 0 7))"
    by blast
  moreover
  from fire_gate [OF ready(1), of WEAPON_DEFS 100] ready(2)
  have first: "canShoot WEAPON_DEFS 100 initGame =
          (100 - lastShotTime (getCurrentWeaponState initGame)
             \<ge> 60000 / rpm (getCurrentWeaponDef WEAPON_DEFS initGame), initGame)"
    by blast
  moreover
  from fire_gate [OF ready(1), of WEAPON_DEFS 50] ready(2)
  have "canShoot WEAPON_DEFS 50 initGame =
          (50 - lastShotTime (getCurrentWeaponState initGame)
             \<ge> 60000 / rpm (getCurrentWeaponDef WEAPON_DEFS initGame), initGame)"
    by blast
  moreover
  have "fst (canShoot WEAPON_DEFS 100 initGame) \<and> (100::real) \<le> 100 \<and>
        150 - 100 < 60000 / rpm (getCurrentWeaponDef WEAPON_DEFS initGame)"
    by (simp add: first) (simp add: initGame_current WEAPON_DEFS_ar)
  with fire_gate [OF ready(1), of WEAPON_DEFS 0 100 100 150 noHits 150 "\<lambda>k. 0.5" noHits "\<lambda>k. 0.5"]
  have "ammo (weaponState (shoot WEAPON_DEFS noHits 150 150 (\<lambda>k. 0.5)
                             (shoot WEAPON_DEFS noHits 100 100 (\<lambda>k. 0.5) initGame))
                ! currentWeaponIndex initGame) = ammo (getCurrentWeaponState initGame) - 1"
    by blast
  ultimately show ?thesis
    by (simp add: initGame_weapons initGame_current WEAPON_DEFS_ar)
qed

subsection \<open>Enemies and hit queries\<close>

lemma intersectObjects_objects:
  "hobject ` set (intersectObjects cast origin d far objects) \<subseteq> set objects"
  by (auto simp: intersectObjects_def)

lemma intersectObjects_hd:
  "intersectObjects cast origin d far objects = h # hs \<Longrightarrow> hobject h \<in> set objects"
  using intersectObjects_objects [of cast origin d far objects] by auto

lemma applyDamageToEnemy_dead:
  assumes "ehealth (heap s e) - dmg \<le> 0"
  shows "enemies (enemyManager (applyDamageToEnemy e dmg s)) =
           filter (\<lambda>x. x \<noteq> e) (enemies (enemyManager s))"
    and "hitMeshes (enemyManager (applyDamageToEnemy e dmg s)) =
           filter (\<lambda>m. m \<noteq> mesh (heap s e)) (hitMeshes (enemyManager s))"
    and "meshToEnemy (enemyManager (applyDamageToEnemy e dmg s)) =
           (meshToEnemy (enemyManager s))(mesh (heap s e) := None)"
    and "timers (applyDamageToEnemy e dmg s) = timers s @ [(2000, CreateEnemy)]"
  using assms by (simp_all add: applyDamageToEnemy_def Let_def setTimeout_def)

lemma applyDamageToEnemy_alive:
  assumes "\<not> ehealth (heap s e) - dmg \<le> 0"
  shows "enemyManager (applyDamageToEnemy e dmg s) = enemyManager s"
    and "timers (applyDamageToEnemy e dmg s) = timers s"
  using assms by (simp_all add: applyDamageToEnemy_def Let_def setTimeout_def)

lemma applyDamageToEnemy_heap:
  "heap (applyDamageToEnemy e dmg s) =
     (heap s)(e := (heap s e)\<lparr>ehealth := ehealth (heap s e) - dmg,
                               barScale := clamp (real_of_int (ehealth (heap s e) - dmg) / 100) 0 1,
                               barColor := (if ehealth (heap s e) - dmg > 30 then 0x00ff6a
                                            else 0xff3b30)\<rparr>)"
  "nextRef (applyDamageToEnemy e dmg s) = nextRef s"
  "events (applyDamageToEnemy e dmg s) = events s"
  by (simp_all add: applyDamageToEnemy_def Let_def setTimeout_def)

lemma applyDamageToEnemy_other:
  "x \<noteq> e \<Longrightarrow> heap (applyDamageToEnemy e dmg s) x = heap s x"
  by (simp add: applyDamageToEnemy_heap)

lemma applyDamageToEnemy_mesh:
  "mesh (heap (applyDamageToEnemy e dmg s) x) = mesh (heap s x)"
  by (simp add: applyDamageToEnemy_heap)

lemma enemiesWf_applyDamageToEnemy:
  assumes "enemiesWf s"
  shows "enemiesWf (applyDamageToEnemy e dmg s)"
proof (cases "ehealth (heap s e) - dmg \<le> 0")
  case True
  with assms show ?thesis
    by (auto simp: enemiesWf_def list_all_iff applyDamageToEnemy_dead applyDamageToEnemy_mesh
        applyDamageToEnemy_heap(2) split: option.splits)
next
  case False
  with assms show ?thesis
    by (auto simp: enemiesWf_def list_all_iff applyDamageToEnemy_alive applyDamageToEnemy_mesh
        applyDamageToEnemy_heap(2) split: option.splits)
qed

lemma createEnemy_fields:
  "enemies (enemyManager (createEnemy rx rz s)) = enemies (enemyManager s) @ [nextRef s]"
  "hitMeshes (enemyManager (createEnemy rx rz s)) = hitMeshes (enemyManager s) @ [nextRef s + 1]"
  "meshToEnemy (enemyManager (createEnemy rx rz s)) =
     (meshToEnemy (enemyManager s))(nextRef s + 1 \<mapsto> nextRef s)"
  "nextRef (createEnemy rx rz s) = nextRef s + 2"
  "heap (createEnemy rx rz s) (nextRef s) =
     \<lparr>mesh = nextRef s + 1,
      eposition = Vec3 (randFloat (- WORLD_SIZE / 2) (WORLD_SIZE / 2) rx) 12
                       (randFloat (- WORLD_SIZE / 2) (WORLD_SIZE / 2) rz),
      barScale = 1, barColor = 0x00ff6a, ehealth = 100, estate = Patrol,
      nextWanderTime = 0, wanderDir = Vec3 1 0 0, elastShotTime = 0\<rparr>"
  by (simp_all add: createEnemy_def Let_def)

lemma createEnemy_old:
  "x \<noteq> nextRef s \<Longrightarrow> heap (createEnemy rx rz s) x = heap s x"
  by (simp add: createEnemy_def Let_def)

lemma enemiesWf_createEnemy:
  assumes "enemiesWf s"
  shows "enemiesWf (createEnemy rx rz s)"
  using assms
  by (auto simp: enemiesWf_def list_all_iff createEnemy_fields createEnemy_old
      split: option.splits)

lemma enemiesWf_initGame: "enemiesWf initGame"
  by (simp add: enemiesWf_def initGame_def)


lemma logQuery_fields:
  "enemyManager (logQuery p origin d far s) = enemyManager s"
  "heap (logQuery p origin d far s) = heap s"
  "worldColliders (logQuery p origin d far s) = worldColliders s"
  "weaponState (logQuery p origin d far s) = weaponState s"
  "events (logQuery p origin d far s) = events s @ [RayQuery p origin d far]"
  by (simp_all add: logQuery_def)

lemma worldImpact_heap:
  "heap (worldImpact cast origin d far s) = heap s"
  by (simp add: worldImpact_def Let_def logQuery_def spawnImpact_def split: list.splits)

lemma performRaycastShot_spares:
  assumes "enemiesWf t" and "mesh (heap t e) \<notin> set (hitMeshes (enemyManager t))"
  shows "heap (performRaycastShot cast def dmg r1 r2 r3 t) e = heap t e"
proof -
  define origin where "origin = cposition (camera t)"
  define d where "d = shotDirection def (aim (camera t)) r1 r2 r3"
  define t1 where "t1 = logQuery EnemyPool origin d (wrange def) t"
  have t1: "enemyManager t1 = enemyManager t" "heap t1 = heap t"
    by (simp_all add: t1_def logQuery_fields)
  show ?thesis
  proof (cases "struckEnemy cast origin d (wrange def) t")
    case None
    then have "performRaycastShot cast def dmg r1 r2 r3 t =
                 worldImpact cast origin d (wrange def) t1"
      by (simp add: performRaycastShot_def Let_def struckEnemy_def origin_def d_def t1_def
          logQuery_fields split: list.splits option.splits)
    then show ?thesis
      by (simp add: worldImpact_heap t1)
  next
    case (Some he)
    obtain h e' where he: "he = (h, e')" by (cases he)
    from Some he obtain hs where
      hit: "intersectObjects cast origin d (wrange def) (hitMeshes (enemyManager t)) = h # hs"
      and look: "meshToEnemy (enemyManager t) (hobject h) = Some e'"
      by (auto simp: struckEnemy_def split: list.splits)
    from intersectObjects_hd [OF hit] have pool: "hobject h \<in> set (hitMeshes (enemyManager t))" .
    with assms(1) look have "mesh (heap t e') = hobject h"
      by (auto simp: enemiesWf_def list_all_iff)
    with pool assms(2) have other: "e \<noteq> e'"
      by auto
    have "performRaycastShot cast def dmg r1 r2 r3 t =
            spawnHitMarker (hpoint h) (applyDamageToEnemy e' dmg t1)"
      using hit look
      by (simp add: performRaycastShot_def Let_def origin_def d_def t1_def logQuery_fields)
    then show ?thesis
      using other by (simp add: spawnHitMarker_def applyDamageToEnemy_other t1)
  qed
qed

lemma twoEnemies_fields:
  "enemies (enemyManager twoEnemies) = [0, 2]"
  "hitMeshes (enemyManager twoEnemies) = [1, 3]"
  "meshToEnemy (enemyManager twoEnemies) 1 = Some 0"
  "meshToEnemy (enemyManager twoEnemies) 3 = Some 2"
  "nextRef twoEnemies = 4"
  "mesh (heap twoEnemies 2) = 3"
  "ehealth (heap twoEnemies 2) = 100"
  "timers twoEnemies = []"
  by (simp_all add: twoEnemies_def createEnemy_def Let_def initGame_def)

lemma enemiesWf_twoEnemies: "enemiesWf twoEnemies"
  unfolding twoEnemies_def by (intro enemiesWf_createEnemy enemiesWf_initGame)

text \<open>
  Claim C4. When \<open>applyDamageToEnemy\<close> leaves the health of an enemy at 0 or below, the
  state it returns has the enemy out of \<open>enemies\<close>, its mesh out of \<open>hitMeshes\<close> and out
  of \<open>meshToEnemy\<close>, no query against the pool returns that mesh, and \<open>CreateEnemy\<close> is
  scheduled after 2000 ms. In a well-formed registry a shot resolved in that state does
  not touch the dead enemy. The replacement is a new object with a new mesh, placed at
  the position drawn by \<open>rx\<close> and \<open>rz\<close>, with health 100.
\<close>

theorem enemy_death_removal:
  "(ehealth (heap s e) - dmg \<le> 0 \<longrightarrow>
      e \<notin> set (enemies (enemyManager (applyDamageToEnemy e dmg s))) \<and>
      mesh (heap s e) \<notin> set (hitMeshes (enemyManager (applyDamageToEnemy e dmg s))) \<and>
      meshToEnemy (enemyManager (applyDamageToEnemy e dmg s)) (mesh (heap s e)) = None \<and>
      mesh (heap s e) \<notin> hobject ` set (intersectObjects cast origin d far
                             (hitMeshes (enemyManager (applyDamageToEnemy e dmg s)))) \<and>
      timers (applyDamageToEnemy e dmg s) = timers s @ [(2000, CreateEnemy)]) \<and>
   (ehealth (heap s e) - dmg \<le> 0 \<and> enemiesWf s \<longrightarrow>
      heap (performRaycastShot cast def dmg' r1 r2 r3 (applyDamageToEnemy e dmg s)) e =
        heap (applyDamageToEnemy e dmg s) e) \<and>
   (ehealth (heap s e) - dmg \<le> 0 \<and> e < nextRef s \<and> mesh (heap s e) < nextRef s \<longrightarrow>
      enemies (enemyManager (runCallback defs CreateEnemy rx rz (applyDamageToEnemy e dmg s))) =
        filter (\<lambda>x. x \<noteq> e) (enemies (enemyManager s)) @ [nextRef s] \<and>
      nextRef s \<noteq> e \<and>
      mesh (heap (runCallback defs CreateEnemy rx rz (applyDamageToEnemy e dmg s)) (nextRef s))
        \<noteq> mesh (heap s e) \<and>
      ehealth (heap (runCallback defs CreateEnemy rx rz (applyDamageToEnemy e dmg s)) (nextRef s))
        = 100 \<and>
      eposition (heap (runCallback defs CreateEnemy rx rz (applyDamageToEnemy e dmg s)) (nextRef s))
        = Vec3 (randFloat (- WORLD_SIZE / 2) (WORLD_SIZE / 2) rx) 12
               (randFloat (- WORLD_SIZE / 2) (WORLD_SIZE / 2) rz))"
proof (intro conjI impI)
  assume dead: "ehealth (heap s e) - dmg \<le> 0"
  note gone = applyDamageToEnemy_dead [OF dead]
  show "e \<notin> set (enemies (enemyManager (applyDamageToEnemy e dmg s)))"
    by (simp add: gone)
  show out: "mesh (heap s e) \<notin> set (hitMeshes (enemyManager (applyDamageToEnemy e dmg s)))"
    by (simp add: gone)
  show "meshToEnemy (enemyManager (applyDamageToEnemy e dmg s)) (mesh (heap s e)) = None"
    by (simp add: gone)
  show "mesh (heap s e) \<notin> hobject ` set (intersectObjects cast origin d far
                             (hitMeshes (enemyManager (applyDamageToEnemy e dmg s))))"
    using out intersectObjects_objects
            [of cast origin d far "hitMeshes (enemyManager (applyDamageToEnemy e dmg s))"]
    by blast
  show "timers (applyDamageToEnemy e dmg s) = timers s @ [(2000, CreateEnemy)]"
    by (simp add: gone)
next
  assume a: "ehealth (heap s e) - dmg \<le> 0 \<and> enemiesWf s"
  then have wf: "enemiesWf (applyDamageToEnemy e dmg s)"
    by (simp add: enemiesWf_applyDamageToEnemy)
  have "mesh (heap (applyDamageToEnemy e dmg s) e)
          \<notin> set (hitMeshes (enemyManager (applyDamageToEnemy e dmg s)))"
    using a by (simp add: applyDamageToEnemy_mesh applyDamageToEnemy_dead)
  with wf show "heap (performRaycastShot cast def dmg' r1 r2 r3 (applyDamageToEnemy e dmg s)) e =
        heap (applyDamageToEnemy e dmg s) e"
    by (rule performRaycastShot_spares)
next
  assume a: "ehealth (heap s e) - dmg \<le> 0 \<and> e < nextRef s \<and> mesh (heap s e) < nextRef s"
  define u where "u = applyDamageToEnemy e dmg s"
  have u: "nextRef u = nextRef s"
    "enemies (enemyManager u) = filter (\<lambda>x. x \<noteq> e) (enemies (enemyManager s))"
    using a by (simp_all add: u_def applyDamageToEnemy_heap applyDamageToEnemy_dead)
  have run: "runCallback defs CreateEnemy rx rz u = createEnemy rx rz u"
    by (simp add: runCallback_def)
  note new = createEnemy_fields [of rx rz u, unfolded u]
  show "enemies (enemyManager (runCallback defs CreateEnemy rx rz (applyDamageToEnemy e dmg s))) =
        filter (\<lambda>x. x \<noteq> e) (enemies (enemyManager s)) @ [nextRef s]"
    by (simp add: u_def [symmetric] run new)
  show "nextRef s \<noteq> e"
    using a by simp
  show "mesh (heap (runCallback defs CreateEnemy rx rz (applyDamageToEnemy e dmg s)) (nextRef s))
        \<noteq> mesh (heap s e)"
    using a by (simp add: u_def [symmetric] run new)
  show "ehealth (heap (runCallback defs CreateEnemy rx rz (applyDamageToEnemy e dmg s)) (nextRef s))
        = 100"
    by (simp add: u_def [symmetric] run new)
  show "eposition (heap (runCallback defs CreateEnemy rx rz (applyDamageToEnemy e dmg s)) (nextRef s))
        = Vec3 (randFloat (- WORLD_SIZE / 2) (WORLD_SIZE / 2) rx) 12
               (randFloat (- WORLD_SIZE / 2) (WORLD_SIZE / 2) rz)"
    by (simp add: u_def [symmetric] run new)
qed


theorem enemy_death_removal_witness:
  "2 \<notin> set (enemies (enemyManager (applyDamageToEnemy 2 100 twoEnemies))) \<and>
   3 \<notin> set (hitMeshes (enemyManager (applyDamageToEnemy 2 100 twoEnemies))) \<and>
   meshToEnemy (enemyManager (applyDamageToEnemy 2 100 twoEnemies)) 3 = None \<and>
   3 \<notin> hobject ` set (intersectObjects hitsBoth (Vec3 0 24 0) (Vec3 0 0 (- 1)) 250
                          (hitMeshes (enemyManager (applyDamageToEnemy 2 100 twoEnemies)))) \<and>
   timers (applyDamageToEnemy 2 100 twoEnemies) = [(2000, CreateEnemy)] \<and>
   ehealth (heap (performRaycastShot hitsBoth (WEAPON_DEFS ! 3) 12 0.5 0.5 0.5
                    (applyDamageToEnemy 2 100 twoEnemies)) 2) = 0 \<and>
   enemies (enemyManager (runCallback WEAPON_DEFS CreateEnemy 0.5 0.5
                            (applyDamageToEnemy 2 100 twoEnemies))) = [0, 4] \<and>
   ehealth (heap (runCallback WEAPON_DEFS CreateEnemy 0.5 0.5
                    (applyDamageToEnemy 2 100 twoEnemies)) 4) = 100 \<and>
   eposition (heap (runCallback WEAPON_DEFS CreateEnemy 0.5 0.5
                      (applyDamageToEnemy 2 100 twoEnemies)) 4) = Vec3 0 12 0"
proof -
  have dead: "ehealth (heap twoEnemies 2) - 100 \<le> 0"
    by (simp add: twoEnemies_fields)
  have allocated: "2 < nextRef twoEnemies \<and> mesh (heap twoEnemies 2) < nextRef twoEnemies"
    by (simp add: twoEnemies_fields)
  from enemy_death_removal
         [where s = twoEnemies and e = 2 and dmg = 100 and cast = hitsBoth
            and origin = "Vec3 0 24 0" and d = "Vec3 0 0 (- 1)" and far = 250
            and def = "WEAPON_DEFS ! 3" and dmg' = 12 and ?r1.0 = "0.5" and ?r2.0 = "0.5"
            and ?r3.0 = "0.5" and defs = WEAPON_DEFS and rx = "0.5" and rz = "0.5"]
       dead allocated enemiesWf_twoEnemies
  have "2 \<notin> set (enemies (enemyManager (applyDamageToEnemy 2 100 twoEnemies)))"
    and "mesh (heap twoEnemies 2)
           \<notin> set (hitMeshes (enemyManager (applyDamageToEnemy 2 100 twoEnemies)))"
    and "meshToEnemy (enemyManager (applyDamageToEnemy 2 100 twoEnemies))
           (mesh (heap twoEnemies 2)) = None"
    and "mesh (heap twoEnemies 2)
           \<notin> hobject ` set (intersectObjects hitsBoth (Vec3 0 24 0) (Vec3 0 0 (- 1)) 250
                   (hitMeshes (enemyManager (applyDamageToEnemy 2 100 twoEnemies))))"
    and "timers (applyDamageToEnemy 2 100 twoEnemies) = timers twoEnemies @ [(2000, CreateEnemy)]"
    and "heap (performRaycastShot hitsBoth (WEAPON_DEFS ! 3) 12 0.5 0.5 0.5
                 (applyDamageToEnemy 2 100 twoEnemies)) 2 =
         heap (applyDamageToEnemy 2 100 twoEnemies) 2"
    and "enemies (enemyManager (runCallback WEAPON_DEFS CreateEnemy 0.5 0.5
                                  (applyDamageToEnemy 2 100 twoEnemies))) =
           filter (\<lambda>x. x \<noteq> 2) (enemies (enemyManager twoEnemies)) @ [nextRef twoEnemies]"
    and "ehealth (heap (runCallback WEAPON_DEFS CreateEnemy 0.5 0.5
                          (applyDamageToEnemy 2 100 twoEnemies)) (nextRef twoEnemies)) = 100"
    and "eposition (heap (runCallback WEAPON_DEFS CreateEnemy 0.5 0.5
                          (applyDamageToEnemy 2 100 twoEnemies)) (nextRef twoEnemies)) =
           Vec3 (randFloat (- WORLD_SIZE / 2) (WORLD_SIZE / 2) 0.5) 12
                (randFloat (- WORLD_SIZE / 2) (WORLD_SIZE / 2) 0.5)"
    by blast+
  then show ?thesis
    by (simp add: twoEnemies_fields applyDamageToEnemy_heap randFloat_def WORLD_SIZE_def)
qed

subsection \<open>Pellets\<close>

lemma countQueries_append:
  "countQueries p (xs @ ys) = countQueries p xs + countQueries p ys"
  by (simp add: countQueries_def)

lemma countQueries_simps:
  "countQueries p [] = 0"
  "countQueries p (RayQuery q origin d far # evs) = (if q = p then 1 else 0) + countQueries p evs"
  "countQueries p (HitMarker v # evs) = countQueries p evs"
  "countQueries p (Impact v # evs) = countQueries p evs"
  "countQueries p (HudRefresh # evs) = countQueries p evs"
  "countQueries p (MuzzleFlash # evs) = countQueries p evs"
  "countQueries p (WeaponModelBuilt # evs) = countQueries p evs"
  by (simp_all add: countQueries_def)

lemma performRaycastShot_events:
  "events (performRaycastShot cast def dmg r1 r2 r3 t) =
     events t @
     RayQuery EnemyPool (cposition (camera t)) (shotDirection def (aim (camera t)) r1 r2 r3)
       (wrange def) #
     (case struckEnemy cast (cposition (camera t))
             (shotDirection def (aim (camera t)) r1 r2 r3) (wrange def) t of
        Some (h, e) \<Rightarrow> [HitMarker (hpoint h)]
      | None \<Rightarrow>
          RayQuery WorldPool (cposition (camera t))
            (shotDirection def (aim (camera t)) r1 r2 r3) (wrange def) #
          (case intersectObjects cast (cposition (camera t))
                  (shotDirection def (aim (camera t)) r1 r2 r3) (wrange def)
                  (worldColliders t) of
             [] \<Rightarrow> []
           | h # _ \<Rightarrow> [Impact (hpoint h)]))"
  by (simp add: performRaycastShot_def struckEnemy_def worldImpact_def Let_def logQuery_def
      spawnImpact_def spawnHitMarker_def applyDamageToEnemy_heap
      split: list.splits option.splits)

lemma performRaycastShot_count:
  "countQueries EnemyPool (events (performRaycastShot cast def dmg r1 r2 r3 t)) =
     countQueries EnemyPool (events t) + 1"
  "countQueries WorldPool (events (performRaycastShot cast def dmg r1 r2 r3 t)) \<le>
     countQueries WorldPool (events t) + 1"
  by (simp_all add: performRaycastShot_events countQueries_append countQueries_simps
      split: option.splits list.splits)

lemma pelletLoop_count:
  "countQueries EnemyPool (events (pelletLoop cast def rolls i n s)) =
     countQueries EnemyPool (events s) + (n - i) \<and>
   countQueries WorldPool (events (pelletLoop cast def rolls i n s)) \<le>
     countQueries WorldPool (events s) + (n - i)"
proof (induction cast def rolls i n s rule: pelletLoop.induct)
  case (1 cast def rolls i n s)
  show ?case
  proof (cases "i < n")
    case True
    define t where "t = performRaycastShot cast def (damage def)
                          (rolls (3 * i)) (rolls (3 * i + 1)) (rolls (3 * i + 2)) s"
    have step: "pelletLoop cast def rolls i n s = pelletLoop cast def rolls (i + 1) n t"
      using True by (subst pelletLoop.simps) (simp add: t_def)
    from "1.IH" [OF True] have ih:
      "countQueries EnemyPool (events (pelletLoop cast def rolls (i + 1) n t)) =
         countQueries EnemyPool (events t) + (n - (i + 1))"
      "countQueries WorldPool (events (pelletLoop cast def rolls (i + 1) n t)) \<le>
         countQueries WorldPool (events t) + (n - (i + 1))"
      by (simp_all add: t_def)
    have one: "countQueries EnemyPool (events t) = countQueries EnemyPool (events s) + 1"
      "countQueries WorldPool (events t) \<le> countQueries WorldPool (events s) + 1"
      unfolding t_def by (rule performRaycastShot_count)+
    from True ih one show ?thesis
      unfolding step by linarith
  next
    case False
    then show ?thesis
      by (subst (1 2) pelletLoop.simps) simp
  qed
qed

lemma pelletLoop_fold:
  "pelletLoop cast def rolls i n s =
     fold (\<lambda>k. performRaycastShot cast def (damage def)
                  (rolls (3 * k)) (rolls (3 * k + 1)) (rolls (3 * k + 2))) [i..<n] s"
proof (induction cast def rolls i n s rule: pelletLoop.induct)
  case (1 cast def rolls i n s)
  show ?case
  proof (cases "i < n")
    case True
    with "1.IH" show ?thesis
      by (subst pelletLoop.simps) (simp add: upt_conv_Cons)
  next
    case False
    then show ?thesis
      by (subst pelletLoop.simps) simp
  qed
qed

lemma shoot_shotgun_events:
  assumes "fst (canShoot defs now1 s)" and "key (getCurrentWeaponDef defs s) = ''shotgun''"
  shows "events (shoot defs cast now1 now2 rolls s) =
           events (pelletLoop cast (getCurrentWeaponDef defs s) rolls 0
                     (pelletCount (getCurrentWeaponDef defs s))
                     (setWeaponState (currentWeaponIndex s)
                        ((getCurrentWeaponState s)\<lparr>lastShotTime := now2\<rparr>) s))
           @ [HudRefresh, MuzzleFlash]"
proof -
  from canShoot_True [OF assms(1)] have same: "snd (canShoot defs now1 s) = s" by simp
  obtain ok s1 where c: "canShoot defs now1 s = (ok, s1)" by (cases "canShoot defs now1 s")
  with assms(1) same have ok: "ok" and s1: "s1 = s" by simp_all
  show ?thesis
    using assms(2)
    by (simp add: shoot_def Let_def c ok s1 flashMuzzle_def updateHUD_def setWeaponState_def
        getCurrentWeaponState_def)
qed

lemma pelletCount_Some: "pellets def = Some n \<Longrightarrow> 0 < n \<Longrightarrow> pelletCount def = n"
  by (simp add: pelletCount_def)

text \<open>
  Claim C6. A shot of a weapon with key \<open>shotgun\<close> that \<open>canShoot\<close> lets through takes one
  round from the magazine, whatever the pellet count \<open>n\<close> is, and resolves \<open>n\<close> pellets:
  the trace gains \<open>n\<close> queries against the enemy pool and at most \<open>n\<close> against the world
  colliders. The blast is \<open>performRaycastShot\<close> run \<open>n\<close> times in sequence, each run with
  three random numbers of its own; a run queries the enemy pool first and queries the
  world colliders exactly when no enemy was struck.
\<close>

theorem shotgun_blast:
  assumes "currentWeaponIndex s < length (weaponState s)"
    and "fst (canShoot defs now1 s)"
    and "key (getCurrentWeaponDef defs s) = ''shotgun''"
    and "pellets (getCurrentWeaponDef defs s) = Some n" and "0 < n"
  shows
  "ammo (weaponState (shoot defs cast now1 now2 rolls s) ! currentWeaponIndex s) =
     ammo (getCurrentWeaponState s) - 1 \<and>
   countQueries EnemyPool (events (shoot defs cast now1 now2 rolls s)) =
     countQueries EnemyPool (events s) + n \<and>
   countQueries WorldPool (events (shoot defs cast now1 now2 rolls s)) \<le>
     countQueries WorldPool (events s) + n \<and>
   pelletLoop cast (getCurrentWeaponDef defs s) rolls 0 n t =
     fold (\<lambda>k. performRaycastShot cast (getCurrentWeaponDef defs s)
                  (damage (getCurrentWeaponDef defs s))
                  (rolls (3 * k)) (rolls (3 * k + 1)) (rolls (3 * k + 2))) [0..<n] t \<and>
   events (performRaycastShot cast def dmg r1 r2 r3 t) =
     events t @
     RayQuery EnemyPool (cposition (camera t)) (shotDirection def (aim (camera t)) r1 r2 r3)
       (wrange def) #
     (case struckEnemy cast (cposition (camera t))
             (shotDirection def (aim (camera t)) r1 r2 r3) (wrange def) t of
        Some (h, e) \<Rightarrow> [HitMarker (hpoint h)]
      | None \<Rightarrow>
          RayQuery WorldPool (cposition (camera t))
            (shotDirection def (aim (camera t)) r1 r2 r3) (wrange def) #
          (case intersectObjects cast (cposition (camera t))
                  (shotDirection def (aim (camera t)) r1 r2 r3) (wrange def)
                  (worldColliders t) of
             [] \<Rightarrow> []
           | h # _ \<Rightarrow> [Impact (hpoint h)]))"
proof (intro conjI)
  have n: "pelletCount (getCurrentWeaponDef defs s) = n"
    using assms(4,5) by (rule pelletCount_Some)
  show "ammo (weaponState (shoot defs cast now1 now2 rolls s) ! currentWeaponIndex s) =
     ammo (getCurrentWeaponState s) - 1"
    using assms(1) by (simp add: shoot_fired [OF assms(2,1)])
  note ev = shoot_shotgun_events [OF assms(2,3), unfolded n]
  note cnt = pelletLoop_count [where cast = cast and def = "getCurrentWeaponDef defs s"
      and rolls = rolls and i = 0 and n = n
      and s = "setWeaponState (currentWeaponIndex s)
         ((getCurrentWeaponState s)\<lparr>lastShotTime := now2\<rparr>) s"]
  show "countQueries EnemyPool (events (shoot defs cast now1 now2 rolls s)) =
     countQueries EnemyPool (events s) + n"
    using cnt by (simp add: ev countQueries_append countQueries_simps setWeaponState_def)
  show "countQueries WorldPool (events (shoot defs cast now1 now2 rolls s)) \<le>
     countQueries WorldPool (events s) + n"
    using cnt by (simp add: ev countQueries_append countQueries_simps setWeaponState_def)
  show "pelletLoop cast (getCurrentWeaponDef defs s) rolls 0 n t =
     fold (\<lambda>k. performRaycastShot cast (getCurrentWeaponDef defs s)
                  (damage (getCurrentWeaponDef defs s))
                  (rolls (3 * k)) (rolls (3 * k + 1)) (rolls (3 * k + 2))) [0..<n] t"
    by (rule pelletLoop_fold)
  show "events (performRaycastShot cast def dmg r1 r2 r3 t) =
     events t @
     RayQuery EnemyPool (cposition (camera t)) (shotDirection def (aim (camera t)) r1 r2 r3)
       (wrange def) #
     (case struckEnemy cast (cposition (camera t))
             (shotDirection def (aim (camera t)) r1 r2 r3) (wrange def) t of
        Some (h, e) \<Rightarrow> [HitMarker (hpoint h)]
      | None \<Rightarrow>
          RayQuery WorldPool (cposition (camera t))
            (shotDirection def (aim (camera t)) r1 r2 r3) (wrange def) #
          (case intersectObjects cast (cposition (camera t))
                  (shotDirection def (aim (camera t)) r1 r2 r3) (wrange def)
                  (worldColliders t) of
             [] \<Rightarrow> []
           | h # _ \<Rightarrow> [Impact (hpoint h)]))"
    by (rule performRaycastShot_events)
qed


lemma WEAPON_DEFS_shotgun:
  "WEAPON_DEFS ! 3 =
     \<lparr>key = ''shotgun'', name = ''Shotgun'', damage = 12, rpm = 85, mag = 8, reserve_cap = 48,
      reload = 2.2, spread = 0.035, wrange = 250, pellets = Some 8, automatic = False\<rparr>"
  by (simp add: WEAPON_DEFS_def)

lemma twoEnemies_weapons:
  "weaponState twoEnemies = weaponState initGame"
  "currentWeaponIndex twoEnemies = 2"
  "events twoEnemies = []"
  by (simp_all add: twoEnemies_def createEnemy_def Let_def initGame_weapons)
     (simp add: initGame_def)

lemma shotgunGame_fields:
  "currentWeaponIndex shotgunGame = 3"
  "length (weaponState shotgunGame) = 6"
  "getCurrentWeaponState shotgunGame =
     \<lparr>ammo = 8, reserve = 48, lastShotTime = 0, reloading = False, skinIndex = 3\<rparr>"
  "getCurrentWeaponDef WEAPON_DEFS shotgunGame = WEAPON_DEFS ! 3"
  "events shotgunGame = [WeaponModelBuilt, HudRefresh]"
  by (simp_all add: shotgunGame_def switchWeapon_def Let_def WEAPON_DEFS_def updateHUD_def
      buildWeaponModel_def twoEnemies_weapons initGame_weapons getCurrentWeaponState_def
      getCurrentWeaponDef_def)

theorem shotgun_blast_witness:
  "ammo (weaponState (shoot WEAPON_DEFS hitsBoth 1000 1000 (\<lambda>k. 0.5) shotgunGame) ! 3) = 7 \<and>
   countQueries EnemyPool (events (shoot WEAPON_DEFS hitsBoth 1000 1000 (\<lambda>k. 0.5) shotgunGame)) = 8 \<and>
   countQueries WorldPool (events (shoot WEAPON_DEFS hitsBoth 1000 1000 (\<lambda>k. 0.5) shotgunGame)) \<le> 8"
proof -
  have idx: "currentWeaponIndex shotgunGame < length (weaponState shotgunGame)"
    by (simp add: shotgunGame_fields)
  have ok: "fst (canShoot WEAPON_DEFS 1000 shotgunGame)"
    by (simp add: canShoot_cases shotgunGame_fields WEAPON_DEFS_shotgun)
  have sg: "key (getCurrentWeaponDef WEAPON_DEFS shotgunGame) = ''shotgun''"
    "pellets (getCurrentWeaponDef WEAPON_DEFS shotgunGame) = Some 8"
    by (simp_all add: shotgunGame_fields WEAPON_DEFS_shotgun)
  have pos: "(0::nat) < 8"
    by simp
  from shotgun_blast [OF idx ok sg pos, where cast = hitsBoth and ?now2.0 = 1000
                      and rolls = "\<lambda>k. 0.5"]
  show ?thesis
    by (simp add: shotgunGame_fields countQueries_simps)
qed

subsection \<open>Spread\<close>

lemma lengthSq_nonneg: "0 \<le> lengthSq a"
  by (simp add: lengthSq_def)

lemma vlength_zero_iff: "vlength a = 0 \<longleftrightarrow> lengthSq a = 0"
  by (simp add: vlength_def)

lemma vlength_nonneg: "0 \<le> vlength a"
  by (simp add: vlength_def lengthSq_nonneg)

lemma vlength_sq: "vlength a * vlength a = lengthSq a"
  by (simp add: vlength_def lengthSq_nonneg)

lemma normalize_components:
  "vx (normalize a) * (if vlength a = 0 then 1 else vlength a) = vx a"
  "vy (normalize a) * (if vlength a = 0 then 1 else vlength a) = vy a"
  "vz (normalize a) * (if vlength a = 0 then 1 else vlength a) = vz a"
  by (simp_all add: normalize_def Let_def)

lemma normalize_unit:
  assumes "lengthSq a \<noteq> 0"
  shows "vlength (normalize a) = 1"
proof -
  have l: "vlength a \<noteq> 0"
    using assms by (simp add: vlength_zero_iff)
  have "lengthSq (normalize a) = lengthSq a / (vlength a * vlength a)"
    using l by (simp add: normalize_def Let_def lengthSq_def add_divide_distrib)
  also have "\<dots> = 1"
    using assms by (simp add: vlength_sq)
  finally show ?thesis
    by (simp add: vlength_def)
qed

lemma normalize_distinct:
  assumes "vz a = vz b" and "vz a \<noteq> 0" and "vy a \<noteq> vy b"
  shows "normalize a \<noteq> normalize b"
proof
  assume eq: "normalize a = normalize b"
  define la where "la = (if vlength a = 0 then 1 else vlength a)"
  define lb where "lb = (if vlength b = 0 then 1 else vlength b)"
  have la: "la \<noteq> 0" and lb: "lb \<noteq> 0"
    by (simp_all add: la_def lb_def)
  have "vz a / la = vz b / lb" and y: "vy a / la = vy b / lb"
    using eq by (simp_all add: normalize_def Let_def la_def lb_def)
  with assms(1,2) la lb have "la = lb"
    by (simp add: field_simps)
  with y la have "vy a = vy b"
    by simp
  with assms(3) show False
    by simp
qed


lemma lengthSq_zero_iff: "lengthSq a = 0 \<longleftrightarrow> a = Vec3 0 0 0"
proof (cases a)
  case (Vec3 x y z)
  have "x * x + y * y + z * z = 0 \<longleftrightarrow> x = 0 \<and> y = 0 \<and> z = 0"
  proof
    assume s: "x * x + y * y + z * z = 0"
    have "0 \<le> x * x" "0 \<le> y * y" "0 \<le> z * z"
      by simp_all
    with s have "x * x = 0" "y * y = 0" "z * z = 0"
      by linarith+
    then show "x = 0 \<and> y = 0 \<and> z = 0"
      by simp
  qed simp
  with Vec3 show ?thesis
    by (simp add: lengthSq_def)
qed

text \<open>
  Against claim C5: for the shotgun aimed along \<open>(0, 0, -1)\<close> with the rolls 0.5, 0.9
  and 0.5, the direction of the code is not the one obtained with a vertical offset
  scaled by 0.2.
\<close>

theorem vertical_spread_counterexample:
  "shotDirection (WEAPON_DEFS ! 3) (Vec3 0 0 (- 1)) 0.5 0.9 0.5 \<noteq>
   specShotDirection (WEAPON_DEFS ! 3) (Vec3 0 0 (- 1)) 0.5 0.9"
  unfolding shotDirection_def specShotDirection_def
  by (rule normalize_distinct) (simp_all add: WEAPON_DEFS_shotgun)

text \<open>
  Claim C5, amended. The direction of a pellet is the aim direction plus the offsets
  \<open>(r1 - 0.5) * spread\<close> on the axis \<open>x\<close>, \<open>(r2 - 0.5) * spread\<close> on the vertical axis \<open>y\<close> and
  \<open>(r3 - 0.5) * spread * 0.2\<close> on the axis \<open>z\<close>, divided by its length \<open>l\<close>: a unit vector
  unless the sum is the zero vector. For rolls in \<open>[0, 1)\<close> the offsets on \<open>x\<close> and \<open>y\<close>
  stay within half the spread and the offset on \<open>z\<close> within a tenth of it.
\<close>

theorem pellet_direction:
  "(\<exists>l. 0 < l \<and>
        vx (shotDirection def base r1 r2 r3) * l = vx base + (r1 - 1 / 2) * spread def \<and>
        vy (shotDirection def base r1 r2 r3) * l = vy base + (r2 - 1 / 2) * spread def \<and>
        vz (shotDirection def base r1 r2 r3) * l = vz base + (r3 - 1 / 2) * spread def * (1 / 5)) \<and>
   (Vec3 (vx base + (r1 - 1 / 2) * spread def) (vy base + (r2 - 1 / 2) * spread def)
         (vz base + (r3 - 1 / 2) * spread def * (1 / 5)) \<noteq> Vec3 0 0 0 \<longrightarrow>
      vlength (shotDirection def base r1 r2 r3) = 1) \<and>
   (0 \<le> spread def \<and> 0 \<le> r1 \<and> r1 < 1 \<and> 0 \<le> r2 \<and> r2 < 1 \<and> 0 \<le> r3 \<and> r3 < 1 \<longrightarrow>
      \<bar>(r1 - 1 / 2) * spread def\<bar> \<le> spread def / 2 \<and>
      \<bar>(r2 - 1 / 2) * spread def\<bar> \<le> spread def / 2 \<and>
      \<bar>(r3 - 1 / 2) * spread def * (1 / 5)\<bar> \<le> spread def / 10)"
proof (intro conjI impI)
  define p where "p = Vec3 (vx base + (r1 - 1 / 2) * spread def)
                           (vy base + (r2 - 1 / 2) * spread def)
                           (vz base + (r3 - 1 / 2) * spread def * (1 / 5))"
  have dir: "shotDirection def base r1 r2 r3 = normalize p"
    by (simp add: shotDirection_def p_def)
  define l where "l = (if vlength p = 0 then 1 else vlength p)"
  have "0 < l"
    using vlength_nonneg [of p] by (simp add: l_def)
  moreover have "vx (normalize p) * l = vx p" "vy (normalize p) * l = vy p"
    "vz (normalize p) * l = vz p"
    unfolding l_def by (rule normalize_components)+
  ultimately show "\<exists>l. 0 < l \<and>
        vx (shotDirection def base r1 r2 r3) * l = vx base + (r1 - 1 / 2) * spread def \<and>
        vy (shotDirection def base r1 r2 r3) * l = vy base + (r2 - 1 / 2) * spread def \<and>
        vz (shotDirection def base r1 r2 r3) * l = vz base + (r3 - 1 / 2) * spread def * (1 / 5)"
    unfolding dir by (intro exI [of _ l]) (simp add: p_def)
  assume "Vec3 (vx base + (r1 - 1 / 2) * spread def) (vy base + (r2 - 1 / 2) * spread def)
         (vz base + (r3 - 1 / 2) * spread def * (1 / 5)) \<noteq> Vec3 0 0 0"
  then have "lengthSq p \<noteq> 0"
    by (simp add: lengthSq_zero_iff p_def)
  then show "vlength (shotDirection def base r1 r2 r3) = 1"
    unfolding dir by (rule normalize_unit)
next
  assume r: "0 \<le> spread def \<and> 0 \<le> r1 \<and> r1 < 1 \<and> 0 \<le> r2 \<and> r2 < 1 \<and> 0 \<le> r3 \<and> r3 < 1"
  have half: "\<bar>(r - 1 / 2) * spread def\<bar> \<le> spread def / 2" if "0 \<le> r" "r < 1" for r :: real
  proof -
    have "\<bar>r - 1 / 2\<bar> \<le> 1 / 2"
      using that by linarith
    then have "\<bar>r - 1 / 2\<bar> * spread def \<le> 1 / 2 * spread def"
      using r by (intro mult_right_mono) simp_all
    then show ?thesis
      using r by (simp add: abs_mult)
  qed
  from r show "\<bar>(r1 - 1 / 2) * spread def\<bar> \<le> spread def / 2"
    by (intro half) simp_all
  from r show "\<bar>(r2 - 1 / 2) * spread def\<bar> \<le> spread def / 2"
    by (intro half) simp_all
  from r have "\<bar>(r3 - 1 / 2) * spread def\<bar> \<le> spread def / 2"
    by (intro half) simp_all
  then show "\<bar>(r3 - 1 / 2) * spread def * (1 / 5)\<bar> \<le> spread def / 10"
    by (simp add: abs_mult mult.commute)
qed

theorem pellet_direction_witness:
  "vlength (shotDirection (WEAPON_DEFS ! 3) (Vec3 0 0 (- 1)) 0.5 0.9 0.5) = 1 \<and>
   \<bar>(0.9 - 1 / 2) * spread (WEAPON_DEFS ! 3)\<bar> \<le> spread (WEAPON_DEFS ! 3) / 2 \<and>
   \<bar>(0.5 - 1 / 2) * spread (WEAPON_DEFS ! 3) * (1 / 5)\<bar> \<le> spread (WEAPON_DEFS ! 3) / 10"
proof -
  have nonzero: "Vec3 (vx (Vec3 0 0 (- 1)) + (0.5 - 1 / 2) * spread (WEAPON_DEFS ! 3))
                      (vy (Vec3 0 0 (- 1)) + (0.9 - 1 / 2) * spread (WEAPON_DEFS ! 3))
                      (vz (Vec3 0 0 (- 1)) + (0.5 - 1 / 2) * spread (WEAPON_DEFS ! 3) * (1 / 5))
                   \<noteq> Vec3 0 0 0"
    by (simp add: WEAPON_DEFS_shotgun)
  have rolls: "0 \<le> spread (WEAPON_DEFS ! 3) \<and> (0::real) \<le> 0.5 \<and> (0.5::real) < 1 \<and>
               (0::real) \<le> 0.9 \<and> (0.9::real) < 1 \<and> (0::real) \<le> 0.5 \<and> (0.5::real) < 1"
    by (simp add: WEAPON_DEFS_shotgun)
  from pellet_direction [where def = "WEAPON_DEFS ! 3" and base = "Vec3 0 0 (- 1)"
                         and ?r1.0 = "0.5" and ?r2.0 = "0.9" and ?r3.0 = "0.5"]
       nonzero rolls
  show ?thesis
    by blast
qed

subsection \<open>Rounding to doubles\<close>













lemma rounding_id: "rounding (\<lambda>x. x)"
  by (simp add: rounding_def)








text \<open>With exact arithmetic in place of the rounding, 14 is out of reach.\<close>

lemma randInt_exact_below_14:
  assumes "0 \<le> r" and "r < 1"
  shows "randInt (\<lambda>x. x) 6 14 r \<le> 13"
proof -
  have "r * 8 + 6 < 14"
    using assms by simp
  then show ?thesis
    by (simp add: randInt_def randFloat64_def floor_less_iff)
qed

subsection \<open>The shot of an enemy\<close>






subsection \<open>Locomotion\<close>

lemma airborneGame_fields:
  "player airborneGame =
     \<lparr>velocity = Vec3 0 100 0, onGround = False, health = 100, lastDamageTime = 0\<rparr>"
  "input airborneGame =
     \<lparr>forward = False, backward = False, left = False, right = False,
      jump = False, sprint = False, shooting = False\<rparr>"
  "camera airborneGame = \<lparr>cposition = Vec3 0 100 0, yaw = 0, aim = Vec3 0 0 (- 1)\<rparr>"
  by (simp_all add: airborneGame_def initGame_def PLAYER_MAX_HEALTH_def)

lemma updateMovement_idle_airborne:
  assumes "input s = \<lparr>forward = False, backward = False, left = False, right = False,
                       jump = False, sprint = False, shooting = False\<rparr>"
    and "\<not> onGround (player s)"
    and "24 < vy (cposition (camera s)) +
              (vy (velocity (player s)) * (1 - clamp (600 * delta) 0 1) - GRAVITY * delta) * delta"
  shows "vy (velocity (player (updateMovement delta s))) =
           vy (velocity (player s)) * (1 - clamp (600 * delta) 0 1) - GRAVITY * delta"
    and "\<not> onGround (player (updateMovement delta s))"
proof -
  define k where "k = Vec3 0 0 0"
  define v1 where "v1 = addScaledVector (velocity (player s))
                          (subVectors (multiplyScalar k PLAYER_SPEED) (velocity (player s)))
                          (clamp (600 * delta) 0 1)"
  define v2 where "v2 = Vec3 (vx v1) (vy v1 - GRAVITY * delta) (vz v1)"
  define p1 where "p1 = addScaledVector (cposition (camera s)) v2 delta"
  have y1: "vy v1 = vy (velocity (player s)) * (1 - clamp (600 * delta) 0 1)"
    by (simp add: v1_def k_def addScaledVector_def subVectors_def multiplyScalar_def
        algebra_simps)
  have y2: "vy v2 = vy (velocity (player s)) * (1 - clamp (600 * delta) 0 1) - GRAVITY * delta"
    by (simp add: v2_def y1)
  have high: "\<not> vy p1 \<le> 24"
    using assms(3) by (simp add: p1_def addScaledVector_def y2)
  have step: "player (updateMovement delta s) =
                (player s)\<lparr>velocity := v2, onGround := False\<rparr>"
    unfolding updateMovement_def Let_def
    using assms(2) high
    by (simp add: assms(1) lengthSq_def p1_def v2_def v1_def k_def)
  show "vy (velocity (player (updateMovement delta s))) =
           vy (velocity (player s)) * (1 - clamp (600 * delta) 0 1) - GRAVITY * delta"
    by (simp add: step y2)
  show "\<not> onGround (player (updateMovement delta s))"
    by (simp add: step)
qed

text \<open>
  Claim C8 on the code: one tick of 16 ms with the player in the air, no key pressed and
  a vertical velocity of 100. Gravity alone would leave \<open>100 - 64 * 0.016 = 98.976\<close>; the
  code leaves \<open>- 1.024\<close>, because the acceleration step towards the target velocity acts
  on all three components of the velocity, the vertical one included.
\<close>

theorem airborne_tick_vertical_velocity:
  "vy (velocity (player (updateMovement 0.016 airborneGame))) = - 1.024 \<and>
   vy (velocity (player airborneGame)) - GRAVITY * 0.016 = 98.976 \<and>
   \<not> onGround (player (updateMovement 0.016 airborneGame))"
proof -
  have inp: "input airborneGame = \<lparr>forward = False, backward = False, left = False,
               right = False, jump = False, sprint = False, shooting = False\<rparr>"
    and air: "\<not> onGround (player airborneGame)"
    by (simp_all add: airborneGame_fields)
  have high: "24 < vy (cposition (camera airborneGame)) +
                (vy (velocity (player airborneGame)) * (1 - clamp (600 * 0.016) 0 1)
                   - GRAVITY * 0.016) * 0.016"
    by (simp add: clamp_def airborneGame_fields GRAVITY_def)
  from updateMovement_idle_airborne [OF inp air high]
  show ?thesis
    by (simp add: clamp_def airborneGame_fields GRAVITY_def)
qed

end
